theory Spec2Isabelle
  imports Complex_Main "HOL-Library.Multiset"
begin

section \<open>QuickQuote: the offline queue, the queue processor and the sync orchestrator\<close>

text \<open>
  A shallow embedding of the processing pipeline of QuickQuote: the queue and draft
  operations of the database module with the SQL of \<^verbatim>\<open>database/schema.ts\<close>,
  \<^verbatim>\<open>queueService\<close>, \<^verbatim>\<open>syncService\<close> and \<^verbatim>\<open>geminiService\<close>.

  Conventions of the embedding.
  \<^item> The SQLite tables are explicit state: the \<^verbatim>\<open>queue\<close> table is the list of its rows
    in insertion order, the \<^verbatim>\<open>drafts\<close> table a map from the primary key to the row.
    The database is taken to be initialised and its statements to succeed.
  \<^item> A JavaScript \<^verbatim>\<open>string | null\<close> is a \<open>string option\<close>; the truthiness test that
    the source applies to such values is \<open>truthy\<close>.
  \<^item> A JavaScript \<^verbatim>\<open>number\<close> that carries a count or a timestamp is a \<open>nat\<close> or an
    \<open>int\<close>; one that carries money, a quantity or a confidence is a \<open>rat\<close>, that is,
    arithmetic is exact.
  \<^item> A thrown value is a value of type \<open>thrown\<close>; a function that may throw returns
    \<open>thrown + 'a\<close>.
  \<^item> The external collaborators (speech-to-text client, extraction client, HTTP
    endpoint, clock, JSON codec) are parameters.
\<close>

subsection \<open>Data model\<close>

datatype QueueStatus = Pending | Processing | Completed | Failed

datatype QueueType = Stt | Parse | Both

text \<open>\<^verbatim>\<open>QueueItem\<close>, as \<^verbatim>\<open>mapQueueRow\<close> builds it from a row of the \<^verbatim>\<open>queue\<close> table.\<close>

record QueueItem =
  q_id :: string
  q_draftId :: string
  q_type :: QueueType
  q_retryCount :: nat
  q_lastError :: "string option"
  q_createdAt :: int
  q_status :: QueueStatus

text \<open>\<^verbatim>\<open>DraftRecord\<close>, as \<^verbatim>\<open>mapDraftRow\<close> builds it from a row of the \<^verbatim>\<open>drafts\<close> table.\<close>

datatype DraftSyncStatus = SLocal | SQueued | SSyncing | SSynced | SFailed

record DraftRecord =
  d_id :: string
  d_createdAt :: int
  d_updatedAt :: int
  d_audioPath :: "string option"
  d_audioDuration :: "int option"
  d_transcript :: "string option"
  d_transcriptConfidence :: "rat option"
  d_invoiceData :: "string option"
  d_parseConfidence :: "rat option"
  d_syncStatus :: DraftSyncStatus
  d_sharedAt :: "int option"
  d_shareMethod :: "string option"

text \<open>\<^verbatim>\<open>GeminiErrorType\<close> of \<^verbatim>\<open>geminiService.ts\<close>.\<close>

datatype GeminiErrorType =
  API_ERROR | PARSE_ERROR | VALIDATION_ERROR | NETWORK_ERROR | TIMEOUT | EMPTY_RESPONSE

text \<open>
  A thrown JavaScript value: an \<^verbatim>\<open>Error\<close> with its message, a \<^verbatim>\<open>GeminiError\<close> with its
  type, message and \<^verbatim>\<open>retryable\<close> flag, a \<^verbatim>\<open>TypeError\<close> with its message, or a value that
  is not an \<^verbatim>\<open>Error\<close>.
\<close>

datatype thrown =
    ErrorObj string
  | GeminiError GeminiErrorType string bool
  | TypeError string
  | NonError

text \<open>\<^verbatim>\<open>error instanceof Error ? error.message : 'Unknown error'\<close>\<close>

fun errorMessageOf :: "thrown \<Rightarrow> string" where
  "errorMessageOf (ErrorObj m) = m"
| "errorMessageOf (GeminiError ty m retryable) = m"
| "errorMessageOf (TypeError m) = m"
| "errorMessageOf NonError = ''Unknown error''"

text \<open>Truthiness of a \<^verbatim>\<open>string | null\<close>: neither \<^verbatim>\<open>null\<close> nor the empty string.\<close>

fun truthy :: "string option \<Rightarrow> bool" where
  "truthy None = False"
| "truthy (Some s) = (s \<noteq> [])"

text \<open>The calls made to the two external clients, oldest first.\<close>

datatype client_call = TranscribeCall string | ExtractCall string

text \<open>
  The persistent state: both tables, the log of client calls and the value that
  \<^verbatim>\<open>Date.now()\<close> returns.
\<close>

record world =
  queue :: "QueueItem list"
  drafts :: "string \<rightharpoonup> DraftRecord"
  calls :: "client_call list"
  clock :: int

subsection \<open>Database service: queue operations\<close>

text \<open>
  \<^verbatim>\<open>QUEUE_QUERIES.GET_PENDING\<close>:
  \<^verbatim>\<open>SELECT * FROM queue WHERE status = 'pending' ORDER BY created_at ASC\<close>.
  Rows with equal \<^verbatim>\<open>created_at\<close> keep their insertion order.
\<close>

definition isPendingRow :: "QueueItem \<Rightarrow> bool" where
  "isPendingRow r = (q_status r = Pending)"

definition getPendingQueueItems :: "world \<Rightarrow> QueueItem list" where
  "getPendingQueueItems w = sort_key q_createdAt (filter isPendingRow (queue w))"

text \<open>
  \<^verbatim>\<open>QUEUE_QUERIES.UPDATE_STATUS\<close>:
  \<^verbatim>\<open>UPDATE queue SET status = ?, last_error = ?, retry_count = ? WHERE id = ?\<close>.
\<close>

definition setRowStatus :: "string \<Rightarrow> QueueStatus \<Rightarrow> string option \<Rightarrow> nat \<Rightarrow> QueueItem \<Rightarrow> QueueItem" where
  "setRowStatus i st err rc r =
     (if q_id r = i then r\<lparr>q_status := st, q_lastError := err, q_retryCount := rc\<rparr> else r)"

definition updateQueueItemStatus :: "string \<Rightarrow> QueueStatus \<Rightarrow> string option \<Rightarrow> nat \<Rightarrow> world \<Rightarrow> world" where
  "updateQueueItemStatus i st err rc w = w\<lparr>queue := map (setRowStatus i st err rc) (queue w)\<rparr>"

text \<open>\<^verbatim>\<open>QUEUE_QUERIES.DELETE_COMPLETED\<close>: \<^verbatim>\<open>DELETE FROM queue WHERE status = 'completed'\<close>.\<close>

definition isCompletedRow :: "QueueItem \<Rightarrow> bool" where
  "isCompletedRow r = (q_status r = Completed)"

definition deleteCompletedQueueItems :: "world \<Rightarrow> world" where
  "deleteCompletedQueueItems w = w\<lparr>queue := filter (Not \<circ> isCompletedRow) (queue w)\<rparr>"

subsection \<open>Database service: draft operations\<close>

text \<open>\<^verbatim>\<open>DRAFTS_QUERIES.GET_BY_ID\<close>: the row with that primary key, or \<^verbatim>\<open>null\<close>.\<close>

definition getDraftById :: "string \<Rightarrow> world \<Rightarrow> DraftRecord option" where
  "getDraftById i w = drafts w i"

text \<open>
  \<^verbatim>\<open>DRAFTS_QUERIES.UPDATE_TRANSCRIPT\<close>:
  \<^verbatim>\<open>UPDATE drafts SET transcript = ?, transcript_confidence = ?, updated_at = ? WHERE id = ?\<close>.
\<close>

definition updateDraftTranscript :: "string \<Rightarrow> string \<Rightarrow> rat \<Rightarrow> world \<Rightarrow> world" where
  "updateDraftTranscript i t c w =
     (case drafts w i of
        None \<Rightarrow> w
      | Some d \<Rightarrow> w\<lparr>drafts := (drafts w)(i \<mapsto>
          d\<lparr>d_transcript := Some t, d_transcriptConfidence := Some c, d_updatedAt := clock w\<rparr>)\<rparr>)"

text \<open>
  \<^verbatim>\<open>DRAFTS_QUERIES.UPDATE_INVOICE\<close>:
  \<^verbatim>\<open>UPDATE drafts SET invoice_data = ?, parse_confidence = ?, sync_status = 'synced', updated_at = ? WHERE id = ?\<close>.
\<close>

definition updateDraftInvoice :: "string \<Rightarrow> string \<Rightarrow> rat \<Rightarrow> world \<Rightarrow> world" where
  "updateDraftInvoice i js c w =
     (case drafts w i of
        None \<Rightarrow> w
      | Some d \<Rightarrow> w\<lparr>drafts := (drafts w)(i \<mapsto>
          d\<lparr>d_invoiceData := Some js, d_parseConfidence := Some c,
            d_syncStatus := SSynced, d_updatedAt := clock w\<rparr>)\<rparr>)"

subsection \<open>Invoices\<close>

text \<open>\<^verbatim>\<open>InvoiceItem\<close> and \<^verbatim>\<open>ParsedInvoice\<close> of \<^verbatim>\<open>types/invoice.ts\<close>.\<close>

record InvoiceItem =
  i_id :: string
  i_description :: string
  i_quantity :: rat
  i_unitPrice :: rat
  i_amount :: rat
  i_confidence :: rat

datatype InvoiceStatus = IDraft | IProcessing | ICompleted | IShared | IError

record ParsedInvoice =
  p_id :: string
  p_items :: "InvoiceItem list"
  p_subtotal :: rat
  p_taxPercent :: rat
  p_taxAmount :: rat
  p_discountPercent :: rat
  p_discountAmount :: rat
  p_total :: rat
  p_currency :: string
  p_notes :: string
  p_originalTranscript :: string
  p_createdAt :: string
  p_status :: InvoiceStatus

text \<open>
  \<^verbatim>\<open>geminiService.getAverageConfidence\<close>: 0 for no items, else the mean of the items'
  confidences (\<^verbatim>\<open>reduce\<close> is a left fold).
\<close>

definition getAverageConfidence :: "ParsedInvoice \<Rightarrow> rat" where
  "getAverageConfidence invoice =
     (if length (p_items invoice) = 0 then 0
      else foldl (\<lambda>acc item. acc + i_confidence item) 0 (p_items invoice)
             / of_nat (length (p_items invoice)))"

subsection \<open>Queue service\<close>

text \<open>What \<^verbatim>\<open>sttService.transcribe\<close> returns, as far as the queue service reads it.\<close>

record STTResult =
  stt_transcript :: string
  stt_confidence :: rat

text \<open>
  The collaborators of the queue service. Each client sees the calls made so far, so
  that its answer may change from call to call; it returns a result or throws.
\<close>

record env =
  sttService_transcribe :: "client_call list \<Rightarrow> string \<Rightarrow> thrown + STTResult"
  geminiService_parseTranscript :: "client_call list \<Rightarrow> string \<Rightarrow> thrown + ParsedInvoice"
  JSON_stringify :: "ParsedInvoice \<Rightarrow> string"

definition MAX_RETRIES :: nat where
  "MAX_RETRIES = 3"

text \<open>
  \<^verbatim>\<open>processItem\<close>, the block
  \<^verbatim>\<open>if (item.type === 'stt' || item.type === 'both') { if (draft.audioPath && !draft.transcript) ... }\<close>.
\<close>

definition sttStage :: "env \<Rightarrow> QueueItem \<Rightarrow> DraftRecord \<Rightarrow> world \<Rightarrow> (thrown + unit) \<times> world" where
  "sttStage e item draft w =
     (if q_type item = Stt \<or> q_type item = Both then
        (case d_audioPath draft of
           None \<Rightarrow> (Inr (), w)
         | Some audio \<Rightarrow>
             if audio \<noteq> [] \<and> \<not> truthy (d_transcript draft) then
               (case sttService_transcribe e (calls w) audio of
                  Inl err \<Rightarrow> (Inl err, w\<lparr>calls := calls w @ [TranscribeCall audio]\<rparr>)
                | Inr sttResult \<Rightarrow>
                    (Inr (), updateDraftTranscript (q_draftId item) (stt_transcript sttResult)
                       (stt_confidence sttResult) (w\<lparr>calls := calls w @ [TranscribeCall audio]\<rparr>)))
             else (Inr (), w))
      else (Inr (), w))"

text \<open>
  \<^verbatim>\<open>processItem\<close>, the block
  \<^verbatim>\<open>if (item.type === 'parse' || item.type === 'both') { const updatedDraft = ...;
  if (updatedDraft?.transcript && !updatedDraft.invoiceData) ... }\<close>.
\<close>

definition parseStage :: "env \<Rightarrow> QueueItem \<Rightarrow> world \<Rightarrow> (thrown + unit) \<times> world" where
  "parseStage e item w =
     (if q_type item = Parse \<or> q_type item = Both then
        (case getDraftById (q_draftId item) w of
           None \<Rightarrow> (Inr (), w)
         | Some updatedDraft \<Rightarrow>
             (case d_transcript updatedDraft of
                None \<Rightarrow> (Inr (), w)
              | Some t \<Rightarrow>
                  if t \<noteq> [] \<and> \<not> truthy (d_invoiceData updatedDraft) then
                    (case geminiService_parseTranscript e (calls w) t of
                       Inl err \<Rightarrow> (Inl err, w\<lparr>calls := calls w @ [ExtractCall t]\<rparr>)
                     | Inr parsedInvoice \<Rightarrow>
                         (Inr (), updateDraftInvoice (q_draftId item) (JSON_stringify e parsedInvoice)
                            (getAverageConfidence parsedInvoice)
                            (w\<lparr>calls := calls w @ [ExtractCall t]\<rparr>)))
                  else (Inr (), w)))
      else (Inr (), w))"

text \<open>The \<^verbatim>\<open>try\<close> block of \<^verbatim>\<open>processItem\<close>.\<close>

definition processItem_try :: "env \<Rightarrow> QueueItem \<Rightarrow> world \<Rightarrow> (thrown + unit) \<times> world" where
  "processItem_try e item w =
     (case getDraftById (q_draftId item) w of
        None \<Rightarrow> (Inl (ErrorObj (''Draft '' @ q_draftId item @ '' not found'')), w)
      | Some draft \<Rightarrow>
          (case sttStage e item draft w of
             (Inl err, w1) \<Rightarrow> (Inl err, w1)
           | (Inr u, w1) \<Rightarrow>
               (case parseStage e item w1 of
                  (Inl err, w2) \<Rightarrow> (Inl err, w2)
                | (Inr u2, w2) \<Rightarrow>
                    (Inr (), updateQueueItemStatus (q_id item) Completed None (q_retryCount item) w2))))"

text \<open>
  \<^verbatim>\<open>queueService.processItem\<close>: mark the row \<^verbatim>\<open>processing\<close>, run the \<^verbatim>\<open>try\<close> block, and
  in the \<^verbatim>\<open>catch\<close> block record the failure and throw the error again.
\<close>

definition processItem :: "env \<Rightarrow> QueueItem \<Rightarrow> world \<Rightarrow> (thrown + unit) \<times> world" where
  "processItem e item w =
     (case processItem_try e item
             (updateQueueItemStatus (q_id item) Processing None (q_retryCount item) w) of
        (Inr u, w1) \<Rightarrow> (Inr u, w1)
      | (Inl err, w1) \<Rightarrow>
          (let errorMessage = errorMessageOf err;
               newRetryCount = q_retryCount item + 1
           in if newRetryCount \<ge> MAX_RETRIES
              then (Inl err, updateQueueItemStatus (q_id item) Failed (Some errorMessage) newRetryCount w1)
              else (Inl err, updateQueueItemStatus (q_id item) Pending (Some errorMessage) newRetryCount w1)))"

record QueueProcessResult =
  r_processed :: nat
  r_failed :: nat
  r_total :: nat
  r_errors :: "(string \<times> string) list"

text \<open>The \<^verbatim>\<open>for (const item of pendingItems)\<close> loop of \<^verbatim>\<open>processQueue\<close>.\<close>

fun processItems :: "env \<Rightarrow> QueueItem list \<Rightarrow> QueueProcessResult \<Rightarrow> world \<Rightarrow> QueueProcessResult \<times> world" where
  "processItems e [] result w = (result, w)"
| "processItems e (item # rest) result w =
     (case processItem e item w of
        (Inr u, w1) \<Rightarrow>
          processItems e rest (result\<lparr>r_processed := r_processed result + 1\<rparr>) w1
      | (Inl err, w1) \<Rightarrow>
          processItems e rest
            (result\<lparr>r_failed := r_failed result + 1,
                    r_errors := r_errors result @ [(q_id item, errorMessageOf err)]\<rparr>) w1)"

text \<open>\<^verbatim>\<open>queueService.processQueue\<close>.\<close>

definition processQueue :: "env \<Rightarrow> world \<Rightarrow> QueueProcessResult \<times> world" where
  "processQueue e w =
     (let pendingItems = getPendingQueueItems w;
          result = \<lparr>r_processed = 0, r_failed = 0, r_total = length pendingItems, r_errors = []\<rparr>
      in if length pendingItems = 0 then (result, w)
         else (case processItems e pendingItems result w of
                 (result1, w1) \<Rightarrow> (result1, deleteCompletedQueueItems w1)))"

text \<open>
  \<^verbatim>\<open>queueService.retryFailedItems\<close>: the filter
  \<^verbatim>\<open>item.status === 'failed' || (item.lastError && item.retryCount < MAX_RETRIES)\<close>
  over \<^verbatim>\<open>getPendingQueueItems()\<close>, then one status update per selected item.
\<close>

definition isRetryCandidate :: "QueueItem \<Rightarrow> bool" where
  "isRetryCandidate item =
     (q_status item = Failed \<or> (truthy (q_lastError item) \<and> q_retryCount item < MAX_RETRIES))"

fun resetToPending :: "QueueItem list \<Rightarrow> world \<Rightarrow> world" where
  "resetToPending [] w = w"
| "resetToPending (item # rest) w =
     resetToPending rest (updateQueueItemStatus (q_id item) Pending None (q_retryCount item) w)"

definition retryFailedItems :: "world \<Rightarrow> world" where
  "retryFailedItems w = resetToPending (filter isRetryCandidate (getPendingQueueItems w)) w"

text \<open>
  What the \<^verbatim>\<open>catch\<close> block of \<^verbatim>\<open>processItem\<close> writes to a row of the queue for a failure
  with message \<open>msg\<close>: the \<^verbatim>\<open>UPDATE\<close> touches the rows with the item's id, sets
  \<^verbatim>\<open>retry_count\<close> to \<^verbatim>\<open>item.retryCount + 1\<close>, \<^verbatim>\<open>last_error\<close> to the message and the status
  to \<^verbatim>\<open>failed\<close> when the new count has reached \<^verbatim>\<open>MAX_RETRIES\<close>, to \<^verbatim>\<open>pending\<close> otherwise.
\<close>

definition recordFailure :: "QueueItem \<Rightarrow> string \<Rightarrow> QueueItem \<Rightarrow> QueueItem" where
  "recordFailure item msg r =
     (if q_id r = q_id item
      then r\<lparr>q_status := (if q_retryCount item + 1 \<ge> MAX_RETRIES then Failed else Pending),
             q_lastError := Some msg, q_retryCount := q_retryCount item + 1\<rparr>
      else r)"

subsection \<open>Example data\<close>

text \<open>
  The scenario of the specification: one pending item of type \<^verbatim>\<open>both\<close> for draft
  \<^verbatim>\<open>d1\<close>, which has audio \<^verbatim>\<open>a.m4a\<close>, no transcript and no invoice.
\<close>

definition itemQ1 :: QueueItem where
  "itemQ1 = \<lparr>q_id = ''q1'', q_draftId = ''d1'', q_type = Both, q_retryCount = 0,
     q_lastError = None, q_createdAt = 100, q_status = Pending\<rparr>"

definition draftD1 :: DraftRecord where
  "draftD1 = \<lparr>d_id = ''d1'', d_createdAt = 50, d_updatedAt = 50, d_audioPath = Some ''a.m4a'',
     d_audioDuration = Some 4000, d_transcript = None, d_transcriptConfidence = None,
     d_invoiceData = None, d_parseConfidence = None, d_syncStatus = SLocal,
     d_sharedAt = None, d_shareMethod = None\<rparr>"

definition scenarioWorld :: world where
  "scenarioWorld = \<lparr>queue = [itemQ1], drafts = [''d1'' \<mapsto> draftD1], calls = [], clock = 1000\<rparr>"

definition sttOk :: STTResult where
  "sttOk = \<lparr>stt_transcript = ''2 hours at 500'', stt_confidence = 9 / 10\<rparr>"

definition invoice1000 :: ParsedInvoice where
  "invoice1000 = \<lparr>p_id = ''inv_1'',
     p_items = [\<lparr>i_id = ''item_1_0'', i_description = ''Labour'', i_quantity = 2,
                 i_unitPrice = 500, i_amount = 1000, i_confidence = 9 / 10\<rparr>],
     p_subtotal = 1000, p_taxPercent = 0, p_taxAmount = 0, p_discountPercent = 0,
     p_discountAmount = 0, p_total = 1000, p_currency = ''INR'', p_notes = '''',
     p_originalTranscript = ''2 hours at 500'', p_createdAt = ''2025-01-01T00:00:00.000Z'',
     p_status = IDraft\<rparr>"

text \<open>Both clients answer.\<close>

definition workingEnv :: env where
  "workingEnv = \<lparr>sttService_transcribe = (\<lambda>log audio. Inr sttOk),
     geminiService_parseTranscript = (\<lambda>log t. Inr invoice1000),
     JSON_stringify = (\<lambda>invoice. ''{total:1000}'')\<rparr>"

text \<open>The extraction client always throws a network error.\<close>

definition extractionDownEnv :: env where
  "extractionDownEnv = \<lparr>sttService_transcribe = (\<lambda>log audio. Inr sttOk),
     geminiService_parseTranscript = (\<lambda>log t. Inl (ErrorObj ''Network request failed'')),
     JSON_stringify = (\<lambda>invoice. ''{total:1000}'')\<rparr>"

text \<open>The transcription client always throws.\<close>

definition transcriptionDownEnv :: env where
  "transcriptionDownEnv = \<lparr>sttService_transcribe = (\<lambda>log audio. Inl (ErrorObj ''Max retries exceeded'')),
     geminiService_parseTranscript = (\<lambda>log t. Inr invoice1000),
     JSON_stringify = (\<lambda>invoice. ''{total:1000}'')\<rparr>"

text \<open>The item's draft has been deleted.\<close>

definition orphanWorld :: world where
  "orphanWorld = \<lparr>queue = [itemQ1], drafts = Map.empty, calls = [], clock = 1000\<rparr>"

text \<open>The draft already has its transcript (a checkpoint of an earlier run).\<close>

definition checkpointWorld :: world where
  "checkpointWorld = \<lparr>queue = [itemQ1],
     drafts = [''d1'' \<mapsto> draftD1\<lparr>d_transcript := Some ''2 hours at 500'',
                                      d_transcriptConfidence := Some (9 / 10)\<rparr>],
     calls = [], clock = 1000\<rparr>"

text \<open>The draft has the empty string as its transcript.\<close>

definition emptyTranscriptWorld :: world where
  "emptyTranscriptWorld = \<lparr>queue = [itemQ1],
     drafts = [''d1'' \<mapsto> draftD1\<lparr>d_transcript := Some [], d_transcriptConfidence := Some 0\<rparr>],
     calls = [], clock = 1000\<rparr>"

text \<open>An item of type \<^verbatim>\<open>parse\<close> for the draft without a transcript.\<close>

definition parseOnlyWorld :: world where
  "parseOnlyWorld = \<lparr>queue = [itemQ1\<lparr>q_type := Parse\<rparr>], drafts = [''d1'' \<mapsto> draftD1],
     calls = [], clock = 1000\<rparr>"

text \<open>A queue whose only row has exhausted its retries.\<close>

definition failedRow :: QueueItem where
  "failedRow = \<lparr>q_id = ''q1'', q_draftId = ''d1'', q_type = Both, q_retryCount = 3,
     q_lastError = Some ''boom'', q_createdAt = 100, q_status = Failed\<rparr>"

definition failedWorld :: world where
  "failedWorld = \<lparr>queue = [failedRow], drafts = Map.empty, calls = [], clock = 1000\<rparr>"

subsection \<open>Sync service\<close>

datatype SyncState = SyncIdle | SyncSyncing | SyncCompleted | SyncError

record SyncResult =
  success :: bool
  processResult :: "QueueProcessResult option"
  error :: "string option"

text \<open>\<^verbatim>\<open>SyncStatus\<close>, the snapshot that \<^verbatim>\<open>getSyncStatus\<close> returns and the listeners receive.\<close>

record SyncStatus =
  st_state :: SyncState
  st_lastSyncAt :: "int option"
  st_lastError :: "string option"
  st_isAutoSyncEnabled :: bool

text \<open>What \<^verbatim>\<open>Network.getNetworkStateAsync()\<close> resolves to; both fields may be absent.\<close>

record NetworkState =
  isConnected :: "bool option"
  isInternetReachable :: "bool option"

text \<open>
  A call of the asynchronous function \<^verbatim>\<open>syncNow\<close> is a task. It runs without
  interruption up to its next \<^verbatim>\<open>await\<close>, where it is suspended until the awaited promise
  settles; other tasks run in between. A task is therefore in one of these places.
\<close>

datatype task =
    NotStarted
  | AwaitingNetwork
  | AwaitingQueue
  | Returned SyncResult
  | Rejected thrown

text \<open>
  The module-level variables of \<^verbatim>\<open>syncService.ts\<close> that \<^verbatim>\<open>syncNow\<close> reads and writes, the
  tasks, the number of times \<^verbatim>\<open>queueService.processQueue()\<close> has been invoked, and the
  snapshots handed to the listeners so far. Listeners are taken not to call back into
  the sync service.
\<close>

record sync_sys =
  syncState :: SyncState
  lastSyncAt :: "int option"
  lastError :: "string option"
  isAutoSyncEnabled :: bool
  tasks :: "nat \<Rightarrow> task"
  processQueueCalls :: nat
  notifications :: "SyncStatus list"

definition SYNC_DEBOUNCE_MS :: int where
  "SYNC_DEBOUNCE_MS = 2000"

definition MIN_SYNC_INTERVAL_MS :: int where
  "MIN_SYNC_INTERVAL_MS = 30000"

definition getSyncStatus :: "sync_sys \<Rightarrow> SyncStatus" where
  "getSyncStatus s = \<lparr>st_state = syncState s, st_lastSyncAt = lastSyncAt s,
     st_lastError = lastError s, st_isAutoSyncEnabled = isAutoSyncEnabled s\<rparr>"

definition notifyListeners :: "sync_sys \<Rightarrow> sync_sys" where
  "notifyListeners s = s\<lparr>notifications := notifications s @ [getSyncStatus s]\<rparr>"

text \<open>
  \<^verbatim>\<open>updateState(newState, error?)\<close>; \<open>now\<close> is the value of \<^verbatim>\<open>Date.now()\<close>, read only for
  the states \<^verbatim>\<open>completed\<close> and \<^verbatim>\<open>error\<close>.
\<close>

definition updateState :: "SyncState \<Rightarrow> string option \<Rightarrow> int \<Rightarrow> sync_sys \<Rightarrow> sync_sys" where
  "updateState newState err now s =
     notifyListeners
       (s\<lparr>syncState := newState,
          lastError := (case err of None \<Rightarrow> lastError s | Some m \<Rightarrow> Some m),
          lastSyncAt := (if newState = SyncCompleted \<or> newState = SyncError then Some now
                         else lastSyncAt s)\<rparr>)"

text \<open>Decimal digits of a number, for the template string \<^verbatim>\<open>`${result.failed} items failed to sync`\<close>.\<close>

function showNat :: "nat \<Rightarrow> string" where
  "showNat n = (if n < 10 then [''0123456789'' ! n] else showNat (n div 10) @ [''0123456789'' ! (n mod 10)])"
  by pat_completeness auto
termination
  by (relation "measure id") auto

declare showNat.simps [simp del]

text \<open>
  \<^verbatim>\<open>lastSyncAt && Date.now() - lastSyncAt < MIN_SYNC_INTERVAL_MS\<close>: a \<^verbatim>\<open>lastSyncAt\<close> that is
  \<^verbatim>\<open>null\<close> or 0 is falsy.
\<close>

definition tooSoon :: "int option \<Rightarrow> int \<Rightarrow> bool" where
  "tooSoon prev now =
     (case prev of None \<Rightarrow> False | Some t \<Rightarrow> t \<noteq> 0 \<and> now - t < MIN_SYNC_INTERVAL_MS)"

text \<open>\<^verbatim>\<open>!networkState.isConnected || networkState.isInternetReachable === false\<close>\<close>

definition isOffline :: "NetworkState \<Rightarrow> bool" where
  "isOffline n = (isConnected n \<noteq> Some True \<or> isInternetReachable n = Some False)"

text \<open>
  \<^verbatim>\<open>syncNow\<close> from its call to its first \<^verbatim>\<open>await\<close>: the check of the \<^verbatim>\<open>syncing\<close> state and
  the check of the minimum interval; \<open>now\<close> is \<^verbatim>\<open>Date.now()\<close>.
\<close>

definition syncNow_call :: "nat \<Rightarrow> int \<Rightarrow> sync_sys \<Rightarrow> sync_sys" where
  "syncNow_call tid now s =
     (if tasks s tid \<noteq> NotStarted then s
      else if syncState s = SyncSyncing then
        s\<lparr>tasks := (tasks s)(tid := Returned
             \<lparr>success = False, processResult = None, error = Some ''Sync already in progress''\<rparr>)\<rparr>
      else if tooSoon (lastSyncAt s) now then
        s\<lparr>tasks := (tasks s)(tid := Returned \<lparr>success = True, processResult = None, error = None\<rparr>)\<rparr>
      else s\<lparr>tasks := (tasks s)(tid := AwaitingNetwork)\<rparr>)"

text \<open>
  \<^verbatim>\<open>syncNow\<close> from the settling of \<^verbatim>\<open>Network.getNetworkStateAsync()\<close> to the next \<^verbatim>\<open>await\<close>:
  the offline check, \<^verbatim>\<open>updateState('syncing')\<close> (which does not read the clock) and the
  invocation of \<^verbatim>\<open>queueService.processQueue()\<close>. The first \<^verbatim>\<open>await\<close> is outside the \<^verbatim>\<open>try\<close> block, so a
  rejection there rejects \<^verbatim>\<open>syncNow\<close>.
\<close>

definition syncNow_afterNetwork :: "nat \<Rightarrow> thrown + NetworkState \<Rightarrow> sync_sys \<Rightarrow> sync_sys" where
  "syncNow_afterNetwork tid answer s =
     (if tasks s tid \<noteq> AwaitingNetwork then s
      else case answer of
          Inl err \<Rightarrow> s\<lparr>tasks := (tasks s)(tid := Rejected err)\<rparr>
        | Inr networkState \<Rightarrow>
            if isOffline networkState then
              s\<lparr>tasks := (tasks s)(tid := Returned
                   \<lparr>success = False, processResult = None, error = Some ''Device is offline''\<rparr>)\<rparr>
            else
              (let s1 = updateState SyncSyncing None 0 s
               in s1\<lparr>processQueueCalls := processQueueCalls s1 + 1,
                     tasks := (tasks s1)(tid := AwaitingQueue)\<rparr>))"

text \<open>
  \<^verbatim>\<open>syncNow\<close> from the settling of \<^verbatim>\<open>queueService.processQueue()\<close> to its return; \<open>now\<close> is
  \<^verbatim>\<open>Date.now()\<close> as \<^verbatim>\<open>updateState\<close> reads it.
\<close>

definition syncNow_afterQueue :: "nat \<Rightarrow> thrown + QueueProcessResult \<Rightarrow> int \<Rightarrow> sync_sys \<Rightarrow> sync_sys" where
  "syncNow_afterQueue tid answer now s =
     (if tasks s tid \<noteq> AwaitingQueue then s
      else case answer of
          Inr result \<Rightarrow>
            (let s1 = (if r_failed result > 0
                       then updateState SyncError
                              (Some (showNat (r_failed result) @ '' items failed to sync'')) now s
                       else updateState SyncCompleted None now s)
             in s1\<lparr>tasks := (tasks s1)(tid := Returned
                   \<lparr>success = (r_failed result = 0), processResult = Some result, error = None\<rparr>)\<rparr>)
        | Inl err \<Rightarrow>
            (let errorMessage = errorMessageOf err;
                 s1 = updateState SyncError (Some errorMessage) now s
             in s1\<lparr>tasks := (tasks s1)(tid := Returned
                   \<lparr>success = False, processResult = None, error = Some errorMessage\<rparr>)\<rparr>))"

text \<open>What the event loop runs next: one uninterrupted piece of one task.\<close>

datatype event =
    CallSyncNow nat int
  | NetworkSettled nat "thrown + NetworkState"
  | QueueSettled nat "thrown + QueueProcessResult" int

fun step :: "event \<Rightarrow> sync_sys \<Rightarrow> sync_sys" where
  "step (CallSyncNow tid now) s = syncNow_call tid now s"
| "step (NetworkSettled tid answer) s = syncNow_afterNetwork tid answer s"
| "step (QueueSettled tid answer now) s = syncNow_afterQueue tid answer now s"

fun run :: "event list \<Rightarrow> sync_sys \<Rightarrow> sync_sys" where
  "run [] s = s"
| "run (ev # evs) s = run evs (step ev s)"

text \<open>
  One call of \<^verbatim>\<open>syncNow\<close> run from its call to its end with no other task in between:
  called at \<open>now\<close>, the network probe settles with \<open>net\<close>, the queue pass with \<open>res\<close> at
  time \<open>fin\<close>.
\<close>

definition syncNow :: "nat \<Rightarrow> int \<Rightarrow> thrown + NetworkState \<Rightarrow> thrown + QueueProcessResult \<Rightarrow> int
    \<Rightarrow> sync_sys \<Rightarrow> sync_sys" where
  "syncNow tid now net res fin s =
     run [CallSyncNow tid now, NetworkSettled tid net, QueueSettled tid res fin] s"

text \<open>The sync service after a process start: idle, never synced, no task started.\<close>

definition freshSys :: sync_sys where
  "freshSys = \<lparr>syncState = SyncIdle, lastSyncAt = None, lastError = None,
     isAutoSyncEnabled = False, tasks = (\<lambda>tid. NotStarted), processQueueCalls = 0,
     notifications = []\<rparr>"

definition online :: NetworkState where
  "online = \<lparr>isConnected = Some True, isInternetReachable = Some True\<rparr>"


subsection \<open>Gemini service\<close>

text \<open>
  \<^verbatim>\<open>RawParsedInvoice\<close>, the shape \<^verbatim>\<open>geminiService.ts\<close> declares for the JSON that the
  language model returns.
\<close>

record RawItem =
  raw_description :: string
  raw_quantity :: rat
  raw_unitPrice :: rat
  raw_amount :: rat
  raw_confidence :: rat

record RawParsedInvoice =
  raw_items :: "RawItem list"
  raw_subtotal :: rat
  raw_taxPercent :: rat
  raw_taxAmount :: rat
  raw_discountPercent :: rat
  raw_discountAmount :: rat
  raw_total :: rat
  raw_currency :: string
  raw_notes :: "string option"

text \<open>\<^verbatim>\<open>x || d\<close> on a number (0 is falsy) and on a string (the empty string is falsy).\<close>

definition orNum :: "rat \<Rightarrow> rat \<Rightarrow> rat" where
  "orNum x d = (if x = 0 then d else x)"

definition orStr :: "string \<Rightarrow> string \<Rightarrow> string" where
  "orStr x d = (if x = [] then d else x)"

text \<open>\<^verbatim>\<open>Math.round\<close> rounds to the nearest integer, halves upwards.\<close>

definition Math_round :: "rat \<Rightarrow> rat" where
  "Math_round x = of_int \<lfloor>x + 1 / 2\<rfloor>"

text \<open>
  The \<^verbatim>\<open>map\<close> callback of \<^verbatim>\<open>transformToInvoice\<close>, applied to the items from \<open>index\<close> on;
  \<open>now\<close> is \<^verbatim>\<open>Date.now()\<close>, taken to be the same at every reading within one
  transformation.
\<close>

fun transformItems :: "nat \<Rightarrow> nat \<Rightarrow> RawItem list \<Rightarrow> InvoiceItem list" where
  "transformItems now index [] = []"
| "transformItems now index (item # rest) =
     \<lparr>i_id = ''item_'' @ showNat now @ ''_'' @ showNat index,
      i_description = orStr (raw_description item) ''Unknown item'',
      i_quantity = max 0 (orNum (raw_quantity item) 1),
      i_unitPrice = max 0 (orNum (raw_unitPrice item) 0),
      i_amount = max 0 (orNum (raw_amount item) (raw_quantity item * raw_unitPrice item)),
      i_confidence = min 1 (max 0 (orNum (raw_confidence item) (1 / 2)))\<rparr>
     # transformItems now (index + 1) rest"

text \<open>
  \<^verbatim>\<open>geminiService.transformToInvoice\<close>; \<open>isoDate\<close> is \<^verbatim>\<open>new Date().toISOString()\<close>.
\<close>

definition transformToInvoice :: "nat \<Rightarrow> string \<Rightarrow> RawParsedInvoice \<Rightarrow> string \<Rightarrow> ParsedInvoice" where
  "transformToInvoice now isoDate raw originalTranscript =
     (let items = transformItems now 0 (raw_items raw);
          subtotal = foldl (\<lambda>sum item. sum + i_amount item) 0 items;
          taxPercent = orNum (raw_taxPercent raw) 0;
          taxAmount = subtotal * (taxPercent / 100);
          discountPercent = orNum (raw_discountPercent raw) 0;
          discountAmount = subtotal * (discountPercent / 100);
          total = subtotal + taxAmount - discountAmount
      in \<lparr>p_id = ''inv_'' @ showNat now,
          p_items = items,
          p_subtotal = Math_round (subtotal * 100) / 100,
          p_taxPercent = taxPercent,
          p_taxAmount = Math_round (taxAmount * 100) / 100,
          p_discountPercent = discountPercent,
          p_discountAmount = Math_round (discountAmount * 100) / 100,
          p_total = Math_round (total * 100) / 100,
          p_currency = orStr (raw_currency raw) ''INR'',
          p_notes = (case raw_notes raw of None \<Rightarrow> [] | Some n \<Rightarrow> orStr n []),
          p_originalTranscript = originalTranscript,
          p_createdAt = isoDate,
          p_status = IDraft\<rparr>)"

text \<open>\<^verbatim>\<open>InvoiceExtractionOptions\<close> of \<^verbatim>\<open>promptTemplates.ts\<close>.\<close>

record InvoiceExtractionOptions =
  opt_currency :: "string option"
  opt_taxRate :: "rat option"

text \<open>
  The prompt of a request: which template of \<^verbatim>\<open>promptTemplates.ts\<close> built it, and from
  what.
\<close>

datatype prompt =
    InvoiceExtractionPrompt string "InvoiceExtractionOptions option"
  | FallbackPrompt string "InvoiceExtractionOptions option"

text \<open>The request body, as far as the two requests of the service differ.\<close>

record GeminiRequest =
  req_prompt :: prompt
  req_maxOutputTokens :: nat

text \<open>
  \<^verbatim>\<open>GeminiResponse\<close>: the message of \<^verbatim>\<open>data.error\<close> if there is an error object, and what
  \<^verbatim>\<open>data.candidates?.[0]?.content?.parts?.[0]?.text\<close> evaluates to.
\<close>

record GeminiResponse =
  g_error :: "string option"
  g_text :: "string option"

text \<open>A \<^verbatim>\<open>Response\<close> of \<^verbatim>\<open>fetch\<close>; \<^verbatim>\<open>response.json()\<close> yields the body or throws.\<close>

record HttpResponse =
  resp_ok :: bool
  resp_status :: nat
  resp_json :: "thrown + GeminiResponse"

text \<open>
  What \<^verbatim>\<open>transformToInvoice(JSON.parse(extractJSON(text)))\<close> does with a response text:
  \<^verbatim>\<open>JSON.parse\<close> throws, or \<^verbatim>\<open>transformToInvoice\<close> throws on a value that is not of the
  declared shape, or the value is a \<^verbatim>\<open>RawParsedInvoice\<close>.
\<close>

datatype decoded = JsonParseThrows | TransformThrows thrown | WellFormed RawParsedInvoice

text \<open>What happens outside the service: a request is sent, or the task sleeps.\<close>

datatype effect = Fetch GeminiRequest | Sleep nat

fun isFetch :: "effect \<Rightarrow> bool" where
  "isFetch (Fetch r) = True"
| "isFetch (Sleep ms) = False"

text \<open>
  The collaborators of the Gemini service: \<^verbatim>\<open>fetch\<close> (which sees what happened so far,
  so that its answer may change from request to request), the JSON decoding of a
  response text, and the clock.
\<close>

record gemini_env =
  fetch :: "effect list \<Rightarrow> GeminiRequest \<Rightarrow> thrown + HttpResponse"
  decode :: "string \<Rightarrow> decoded"
  dateNow :: nat
  isoNow :: string

definition CONFIG_MAX_RETRIES :: nat where
  "CONFIG_MAX_RETRIES = 3"

definition CONFIG_RETRY_INITIAL_DELAY_MS :: nat where
  "CONFIG_RETRY_INITIAL_DELAY_MS = 1000"

definition CONFIG_RETRY_MAX_DELAY_MS :: nat where
  "CONFIG_RETRY_MAX_DELAY_MS = 10000"

definition getBackoffDelay :: "nat \<Rightarrow> nat" where
  "getBackoffDelay attempt = min (CONFIG_RETRY_INITIAL_DELAY_MS * 2 ^ attempt) CONFIG_RETRY_MAX_DELAY_MS"

text \<open>\<^verbatim>\<open>haystack.includes(needle)\<close>\<close>

fun includes_str :: "string \<Rightarrow> string \<Rightarrow> bool" where
  "includes_str [] needle = (needle = [])"
| "includes_str (c # cs) needle = (take (length needle) (c # cs) = needle \<or> includes_str cs needle)"

text \<open>
  \<^verbatim>\<open>!transcript || transcript.trim().length === 0\<close>: nothing but white space. The
  transcript is taken to be ASCII, where the white space of \<^verbatim>\<open>trim\<close> is the characters
  9 to 13 and 32.
\<close>

definition isWhitespace :: "char \<Rightarrow> bool" where
  "isWhitespace c = (c \<in> set [CHR 0x09, CHR 0x0A, CHR 0x0B, CHR 0x0C, CHR 0x0D, CHR '' ''])"

definition isBlank :: "string \<Rightarrow> bool" where
  "isBlank transcript = list_all isWhitespace transcript"

text \<open>
  The \<^verbatim>\<open>try\<close> block of one iteration of the retry loop of \<^verbatim>\<open>parseTranscript\<close>: the parsed
  invoice, or the value thrown.
\<close>

definition tryAttempt :: "gemini_env \<Rightarrow> string \<Rightarrow> GeminiRequest \<Rightarrow> nat \<Rightarrow> effect list
    \<Rightarrow> thrown + ParsedInvoice" where
  "tryAttempt e transcript request attempt hist =
     (case fetch e hist request of
        Inl err \<Rightarrow> Inl err
      | Inr response \<Rightarrow>
          (case resp_json response of
             Inl err \<Rightarrow> Inl err
           | Inr data \<Rightarrow>
               if \<not> resp_ok response \<or> g_error data \<noteq> None then
                 (let errorMessage =
                        orStr (case g_error data of None \<Rightarrow> [] | Some m \<Rightarrow> m)
                          (''HTTP '' @ showNat (resp_status response))
                  in if resp_status response = 401 \<or> resp_status response = 403
                       then Inl (GeminiError API_ERROR ''Invalid API key'' False)
                     else if resp_status response = 429
                       then Inl (GeminiError API_ERROR ''Rate limit exceeded'' True)
                     else if resp_status response \<ge> 500
                       then Inl (GeminiError API_ERROR errorMessage True)
                     else Inl (GeminiError API_ERROR errorMessage (attempt < CONFIG_MAX_RETRIES - 1)))
               else
                 (case g_text data of
                    None \<Rightarrow> Inl (GeminiError EMPTY_RESPONSE ''No response from Gemini'' True)
                  | Some text \<Rightarrow>
                      if text = [] then Inl (GeminiError EMPTY_RESPONSE ''No response from Gemini'' True)
                      else
                        (case decode e text of
                           JsonParseThrows \<Rightarrow>
                             Inl (GeminiError PARSE_ERROR ''Failed to parse Gemini response as JSON'' True)
                         | TransformThrows err \<Rightarrow> Inl err
                         | WellFormed rawInvoice \<Rightarrow>
                             Inr (transformToInvoice (dateNow e) (isoNow e) rawInvoice transcript)))))"

text \<open>\<^verbatim>\<open>error instanceof GeminiError && !error.retryable\<close>\<close>

fun isFatal :: "thrown \<Rightarrow> bool" where
  "isFatal (GeminiError ty m retryable) = (\<not> retryable)"
| "isFatal err = False"

text \<open>
  The value kept in \<^verbatim>\<open>lastError\<close>: the error caught, replaced by a \<^verbatim>\<open>NETWORK_ERROR\<close> when it
  is a \<^verbatim>\<open>TypeError\<close> whose message includes \<^verbatim>\<open>fetch\<close>.
\<close>

fun keptError :: "thrown \<Rightarrow> thrown" where
  "keptError (TypeError m) =
     (if includes_str m ''fetch'' then GeminiError NETWORK_ERROR ''Network request failed'' True
      else TypeError m)"
| "keptError err = err"

text \<open>How the retry loop ends: by \<^verbatim>\<open>return\<close>, by \<^verbatim>\<open>throw\<close>, or by running out of attempts.\<close>

datatype loop_end = LoopReturned ParsedInvoice | LoopThrew thrown | LoopExhausted "thrown option"

text \<open>
  The retry loop \<^verbatim>\<open>for (let attempt = 0; attempt < CONFIG.MAX_RETRIES; attempt++)\<close> from
  \<open>attempt\<close> on, with the current \<^verbatim>\<open>lastError\<close> and what has happened so far.
\<close>

function retryLoop :: "gemini_env \<Rightarrow> string \<Rightarrow> GeminiRequest \<Rightarrow> nat \<Rightarrow> thrown option \<Rightarrow> effect list
    \<Rightarrow> loop_end \<times> effect list" where
  "retryLoop e transcript request attempt lastErr hist =
     (if attempt < CONFIG_MAX_RETRIES then
        (case tryAttempt e transcript request attempt hist of
           Inr parsedInvoice \<Rightarrow> (LoopReturned parsedInvoice, hist @ [Fetch request])
         | Inl err \<Rightarrow>
             if isFatal err then (LoopThrew err, hist @ [Fetch request])
             else retryLoop e transcript request (attempt + 1) (Some (keptError err))
                    (if attempt < CONFIG_MAX_RETRIES - 1
                     then hist @ [Fetch request, Sleep (getBackoffDelay attempt)]
                     else hist @ [Fetch request]))
      else (LoopExhausted lastErr, hist))"
  by pat_completeness auto
termination
  by (relation "measure (\<lambda>(e, transcript, request, attempt, lastErr, hist). CONFIG_MAX_RETRIES - attempt)")
     auto

declare retryLoop.simps [simp del]

text \<open>The invoice that \<^verbatim>\<open>fallbackParse\<close> returns as its last resort.\<close>

definition emptyInvoice :: "gemini_env \<Rightarrow> string \<Rightarrow> string \<Rightarrow> rat \<Rightarrow> ParsedInvoice" where
  "emptyInvoice e transcript currency taxRate =
     \<lparr>p_id = ''inv_'' @ showNat (dateNow e), p_items = [], p_subtotal = 0, p_taxPercent = taxRate,
      p_taxAmount = 0, p_discountPercent = 0, p_discountAmount = 0, p_total = 0,
      p_currency = currency,
      p_notes = ''Failed to parse transcript. Please add items manually.'',
      p_originalTranscript = transcript, p_createdAt = isoNow e, p_status = IDraft\<rparr>"

text \<open>\<^verbatim>\<open>geminiService.fallbackParse\<close>\<close>

definition fallbackRequest :: "string \<Rightarrow> InvoiceExtractionOptions option \<Rightarrow> GeminiRequest" where
  "fallbackRequest transcript options =
     \<lparr>req_prompt = FallbackPrompt transcript options, req_maxOutputTokens = 512\<rparr>"

definition fallbackParse :: "gemini_env \<Rightarrow> string \<Rightarrow> InvoiceExtractionOptions option \<Rightarrow> effect list
    \<Rightarrow> (thrown + ParsedInvoice) \<times> effect list" where
  "fallbackParse e transcript options hist =
     (let currency = orStr (case options of None \<Rightarrow> []
                            | Some opts \<Rightarrow> (case opt_currency opts of None \<Rightarrow> [] | Some c \<Rightarrow> c)) ''INR'';
          taxRate = (case options of None \<Rightarrow> 0
                     | Some opts \<Rightarrow> (case opt_taxRate opts of None \<Rightarrow> 0 | Some r \<Rightarrow> r));
          request = fallbackRequest transcript options;
          hist1 = hist @ [Fetch request]
      in case fetch e hist request of
           Inl err \<Rightarrow> (Inl err, hist1)
         | Inr response \<Rightarrow>
             if \<not> resp_ok response
               then (Inl (GeminiError API_ERROR ''Fallback parser failed'' False), hist1)
             else
               (case resp_json response of
                  Inl err \<Rightarrow> (Inl err, hist1)
                | Inr data \<Rightarrow>
                    if \<not> truthy (g_text data)
                      then (Inl (GeminiError EMPTY_RESPONSE ''No fallback response'' False), hist1)
                    else
                      (case decode e (case g_text data of None \<Rightarrow> [] | Some text \<Rightarrow> text) of
                         WellFormed rawInvoice \<Rightarrow>
                           (Inr (transformToInvoice (dateNow e) (isoNow e) rawInvoice transcript), hist1)
                       | JsonParseThrows \<Rightarrow> (Inr (emptyInvoice e transcript currency taxRate), hist1)
                       | TransformThrows err \<Rightarrow>
                           (Inr (emptyInvoice e transcript currency taxRate), hist1))))"

text \<open>
  \<^verbatim>\<open>geminiService.parseTranscript\<close>. The fallback is called without the options. A
  \<^verbatim>\<open>lastError\<close> that has been set is taken to be truthy.
\<close>

definition mainRequest :: "string \<Rightarrow> InvoiceExtractionOptions option \<Rightarrow> GeminiRequest" where
  "mainRequest transcript options =
     \<lparr>req_prompt = InvoiceExtractionPrompt transcript options, req_maxOutputTokens = 1024\<rparr>"

definition parseTranscript :: "gemini_env \<Rightarrow> string \<Rightarrow> InvoiceExtractionOptions option
    \<Rightarrow> (thrown + ParsedInvoice) \<times> effect list" where
  "parseTranscript e transcript options =
     (if isBlank transcript
        then (Inl (GeminiError EMPTY_RESPONSE ''No transcript to parse'' False), [])
      else
        (case retryLoop e transcript (mainRequest transcript options) 0 None [] of
           (LoopReturned parsedInvoice, hist) \<Rightarrow> (Inr parsedInvoice, hist)
         | (LoopThrew err, hist) \<Rightarrow> (Inl err, hist)
         | (LoopExhausted lastErr, hist) \<Rightarrow>
             (case fallbackParse e transcript None hist of
                (Inr parsedInvoice, hist1) \<Rightarrow> (Inr parsedInvoice, hist1)
              | (Inl err, hist1) \<Rightarrow>
                  (Inl (case lastErr of
                          Some kept \<Rightarrow> kept
                        | None \<Rightarrow> GeminiError API_ERROR ''Max retries exceeded'' False), hist1))))"

text \<open>Example collaborators of the Gemini service.\<close>

text \<open>The network is down: every \<^verbatim>\<open>fetch\<close> throws.\<close>

definition networkDownEnv :: gemini_env where
  "networkDownEnv = \<lparr>fetch = (\<lambda>hist request. Inl (TypeError ''Network request failed'')),
     decode = (\<lambda>text. JsonParseThrows), dateNow = 7, isoNow = ''2025-01-01T00:00:00.000Z''\<rparr>"

text \<open>
  The endpoint answers the main request with status 503 and the fallback request with
  text that is not JSON.
\<close>

definition okResponse :: "string \<Rightarrow> HttpResponse" where
  "okResponse text = \<lparr>resp_ok = True, resp_status = 200,
     resp_json = Inr \<lparr>g_error = None, g_text = Some text\<rparr>\<rparr>"

definition overloadedResponse :: HttpResponse where
  "overloadedResponse = \<lparr>resp_ok = False, resp_status = 503,
     resp_json = Inr \<lparr>g_error = Some ''overloaded'', g_text = None\<rparr>\<rparr>"

definition garbledFallbackEnv :: gemini_env where
  "garbledFallbackEnv = \<lparr>fetch = (\<lambda>hist request.
        if req_maxOutputTokens request = 512 then Inr (okResponse ''I cannot help with that'')
        else Inr overloadedResponse),
     decode = (\<lambda>text. JsonParseThrows), dateNow = 7, isoNow = ''2025-01-01T00:00:00.000Z''\<rparr>"

section \<open>Theorems\<close>

subsection \<open>C1: what getPendingQueueItems returns\<close>

text \<open>
  C1, as stated, fails: a row whose status is \<^verbatim>\<open>failed\<close> is not \<^verbatim>\<open>completed\<close>, yet
  \<^verbatim>\<open>getPendingQueueItems\<close> does not return it. (The same holds for \<^verbatim>\<open>processing\<close>.)
\<close>

theorem C1_counterexample:
  "failedRow \<in> set (queue failedWorld) \<and> q_status failedRow \<noteq> Completed
     \<and> failedRow \<notin> set (getPendingQueueItems failedWorld)"
  by (simp add: failedWorld_def failedRow_def getPendingQueueItems_def isPendingRow_def)

text \<open>
  C1, amended: for every queue state, \<^verbatim>\<open>getPendingQueueItems\<close> returns exactly the rows
  whose status is \<^verbatim>\<open>pending\<close> (each as often as it occurs in the table), ordered by
  \<^verbatim>\<open>createdAt\<close> ascending.
\<close>

theorem C1_getPendingQueueItems_pending_sorted:
  "mset (getPendingQueueItems w) = filter_mset isPendingRow (mset (queue w))
     \<and> sorted (map q_createdAt (getPendingQueueItems w))"
  by (simp add: getPendingQueueItems_def)

subsection \<open>Auxiliary facts about the queue service\<close>

lemma setRowStatus_twice:
  "setRowStatus i st2 e2 rc2 (setRowStatus i st1 e1 rc1 r) = setRowStatus i st2 e2 rc2 r"
  by (simp add: setRowStatus_def)

lemma updateQueueItemStatus_twice:
  "updateQueueItemStatus i st2 e2 rc2 (updateQueueItemStatus i st1 e1 rc1 w)
     = updateQueueItemStatus i st2 e2 rc2 w"
  by (simp add: updateQueueItemStatus_def setRowStatus_twice comp_def)

lemma sttStage_queue:
  "sttStage e item draft (w\<lparr>queue := q\<rparr>)
     = (fst (sttStage e item draft w), (snd (sttStage e item draft w))\<lparr>queue := q\<rparr>)"
  by (simp add: sttStage_def updateDraftTranscript_def split: option.splits sum.splits)

lemma parseStage_queue:
  "parseStage e item (w\<lparr>queue := q\<rparr>)
     = (fst (parseStage e item w), (snd (parseStage e item w))\<lparr>queue := q\<rparr>)"
  by (simp add: parseStage_def updateDraftInvoice_def getDraftById_def split: option.splits sum.splits)

lemma failure_rows:
  "map (setRowStatus (q_id item) (if q_retryCount item + 1 \<ge> MAX_RETRIES then Failed else Pending)
          (Some msg) (q_retryCount item + 1)) q
     = map (recordFailure item msg) q"
  by (simp add: setRowStatus_def recordFailure_def)

lemma processItem_stt_raises:
  assumes "getDraftById (q_draftId item) w = Some draft"
    and "sttStage e item draft w = (Inl err, w1)"
  shows "processItem e item w
           = (Inl err, w1\<lparr>queue := map (recordFailure item (errorMessageOf err)) (queue w)\<rparr>)"
proof -
  let ?wp = "updateQueueItemStatus (q_id item) Processing None (q_retryCount item) w"
  have wp: "?wp = w\<lparr>queue := queue ?wp\<rparr>" by (simp add: updateQueueItemStatus_def)
  have d: "getDraftById (q_draftId item) ?wp = Some draft"
    using assms(1) by (simp add: getDraftById_def updateQueueItemStatus_def)
  have s: "sttStage e item draft ?wp = (Inl err, w1\<lparr>queue := queue ?wp\<rparr>)"
    using assms(2) by (subst wp) (simp add: sttStage_queue)
  have t: "processItem_try e item ?wp = (Inl err, w1\<lparr>queue := queue ?wp\<rparr>)"
    by (simp add: processItem_try_def d s)
  show ?thesis
    unfolding processItem_def t
    by (simp add: Let_def updateQueueItemStatus_def setRowStatus_twice comp_def
          failure_rows [symmetric])
qed

lemma processItem_parse_raises:
  assumes "getDraftById (q_draftId item) w = Some draft"
    and "sttStage e item draft w = (Inr u, w1)"
    and "parseStage e item w1 = (Inl err, w2)"
  shows "processItem e item w
           = (Inl err, w2\<lparr>queue := map (recordFailure item (errorMessageOf err)) (queue w)\<rparr>)"
proof -
  let ?wp = "updateQueueItemStatus (q_id item) Processing None (q_retryCount item) w"
  have wp: "?wp = w\<lparr>queue := queue ?wp\<rparr>" by (simp add: updateQueueItemStatus_def)
  have d: "getDraftById (q_draftId item) ?wp = Some draft"
    using assms(1) by (simp add: getDraftById_def updateQueueItemStatus_def)
  have s: "sttStage e item draft ?wp = (Inr u, w1\<lparr>queue := queue ?wp\<rparr>)"
    using assms(2) by (subst wp) (simp add: sttStage_queue)
  have p: "parseStage e item (w1\<lparr>queue := queue ?wp\<rparr>) = (Inl err, w2\<lparr>queue := queue ?wp\<rparr>)"
    using assms(3) by (simp add: parseStage_queue)
  have t: "processItem_try e item ?wp = (Inl err, w2\<lparr>queue := queue ?wp\<rparr>)"
    by (simp add: processItem_try_def d s p)
  show ?thesis
    unfolding processItem_def t
    by (simp add: Let_def updateQueueItemStatus_def setRowStatus_twice comp_def
          failure_rows [symmetric])
qed


lemma processItem_completes:
  assumes "getDraftById (q_draftId item) w = Some draft"
    and "sttStage e item draft w = (Inr u, w1)"
    and "parseStage e item w1 = (Inr u2, w2)"
  shows "processItem e item w
           = (Inr (), w2\<lparr>queue := map (setRowStatus (q_id item) Completed None (q_retryCount item)) (queue w)\<rparr>)"
proof -
  let ?wp = "updateQueueItemStatus (q_id item) Processing None (q_retryCount item) w"
  have wp: "?wp = w\<lparr>queue := queue ?wp\<rparr>" by (simp add: updateQueueItemStatus_def)
  have d: "getDraftById (q_draftId item) ?wp = Some draft"
    using assms(1) by (simp add: getDraftById_def updateQueueItemStatus_def)
  have s: "sttStage e item draft ?wp = (Inr u, w1\<lparr>queue := queue ?wp\<rparr>)"
    using assms(2) by (subst wp) (simp add: sttStage_queue)
  have p: "parseStage e item (w1\<lparr>queue := queue ?wp\<rparr>) = (Inr u2, w2\<lparr>queue := queue ?wp\<rparr>)"
    using assms(3) by (simp add: parseStage_queue)
  have t: "processItem_try e item ?wp
             = (Inr (), updateQueueItemStatus (q_id item) Completed None (q_retryCount item)
                  (w2\<lparr>queue := queue ?wp\<rparr>))"
    by (simp add: processItem_try_def d s p)
  show ?thesis
    unfolding processItem_def t
    by (simp add: updateQueueItemStatus_def setRowStatus_twice comp_def)
qed

lemma processItem_missing_draft:
  assumes "getDraftById (q_draftId item) w = None"
  shows "processItem e item w
           = (Inl (ErrorObj (''Draft '' @ q_draftId item @ '' not found'')),
              w\<lparr>queue := map (recordFailure item (''Draft '' @ q_draftId item @ '' not found'')) (queue w)\<rparr>)"
  using assms
  by (simp add: processItem_def processItem_try_def getDraftById_def Let_def
       updateQueueItemStatus_def setRowStatus_twice comp_def failure_rows [symmetric])

lemma truthy_not_None: "truthy x \<Longrightarrow> x \<noteq> None"
  by (cases x) simp_all

lemma sttStage_draft:
  assumes "drafts w i = Some d"
  shows "\<exists>d'. drafts (snd (sttStage e item draft w)) i = Some d'
           \<and> (truthy (d_invoiceData d) \<longrightarrow> d_invoiceData d' = d_invoiceData d)
           \<and> (d_invoiceData d \<noteq> None \<longrightarrow> d_invoiceData d' \<noteq> None)"
  using assms
  by (auto simp add: sttStage_def updateDraftTranscript_def split: option.splits sum.splits)

lemma parseStage_invoice:
  assumes "parseStage e item w = (Inr u, w')" and "q_type item \<noteq> Stt"
    and "drafts w (q_draftId item) = Some d"
  shows "\<exists>d'. drafts w' (q_draftId item) = Some d'
           \<and> (truthy (d_transcript d') \<longrightarrow> d_invoiceData d' \<noteq> None)"
  using assms
  by (cases "q_type item")
     (auto simp add: parseStage_def updateDraftInvoice_def getDraftById_def
        dest: truthy_not_None split: option.splits sum.splits if_splits)

lemma getPending_single:
  "queue w = [it] \<Longrightarrow> q_status it = Pending \<Longrightarrow> getPendingQueueItems w = [it]"
  by (simp add: getPendingQueueItems_def isPendingRow_def)

lemma processQueue_single_raises:
  assumes "queue w = [it]" and "q_status it = Pending"
    and "processItem e it w = (Inl err, w')"
    and "queue w' = [it']" and "q_status it' \<noteq> Completed"
  shows "processQueue e w
           = (\<lparr>r_processed = 0, r_failed = 1, r_total = 1, r_errors = [(q_id it, errorMessageOf err)]\<rparr>, w')"
  using assms
  by (simp add: processQueue_def getPending_single deleteCompletedQueueItems_def isCompletedRow_def)

lemma extraction_pass:
  assumes q: "queue w = [it]" and st: "q_status it = Pending" and ty: "q_type it = Both"
    and d: "drafts w (q_draftId it) = Some d"
    and t: "d_transcript d = Some t" "t \<noteq> []" and inv: "d_invoiceData d = None"
    and fails: "\<And>log x. geminiService_parseTranscript e log x = Inl perr"
  shows "snd (processQueue e w)
           = w\<lparr>queue := [recordFailure it (errorMessageOf perr) it],
                calls := calls w @ [ExtractCall t]\<rparr>"
proof -
  have s: "sttStage e it d w = (Inr (), w)"
    by (simp add: sttStage_def t split: option.splits)
  have p: "parseStage e it w = (Inl perr, w\<lparr>calls := calls w @ [ExtractCall t]\<rparr>)"
    by (simp add: parseStage_def ty getDraftById_def d t inv fails)
  have pi: "processItem e it w
              = (Inl perr, w\<lparr>calls := calls w @ [ExtractCall t],
                               queue := [recordFailure it (errorMessageOf perr) it]\<rparr>)"
    using processItem_parse_raises [of it w d e "()" w perr, OF _ s p] d q
    by (simp add: getDraftById_def)
  have nc: "q_status (recordFailure it (errorMessageOf perr) it) \<noteq> Completed"
    by (simp add: recordFailure_def)
  show ?thesis
    using processQueue_single_raises [OF q st pi _ nc] by simp
qed

lemma first_pass:
  assumes q: "queue w = [it]" and st: "q_status it = Pending" and ty: "q_type it = Both"
    and d: "drafts w (q_draftId it) = Some d"
    and a: "d_audioPath d = Some a" "a \<noteq> []" and t: "d_transcript d = None"
    and inv: "d_invoiceData d = None"
    and stt: "\<And>log x. sttService_transcribe e log x = Inr r" and r: "stt_transcript r \<noteq> []"
    and fails: "\<And>log x. geminiService_parseTranscript e log x = Inl perr"
  shows "snd (processQueue e w)
           = w\<lparr>queue := [recordFailure it (errorMessageOf perr) it],
                drafts := (drafts w)(q_draftId it \<mapsto>
                   d\<lparr>d_transcript := Some (stt_transcript r),
                     d_transcriptConfidence := Some (stt_confidence r), d_updatedAt := clock w\<rparr>),
                calls := calls w @ [TranscribeCall a, ExtractCall (stt_transcript r)]\<rparr>"
proof -
  let ?w1 = "updateDraftTranscript (q_draftId it) (stt_transcript r) (stt_confidence r)
               (w\<lparr>calls := calls w @ [TranscribeCall a]\<rparr>)"
  have s: "sttStage e it d w = (Inr (), ?w1)"
    by (simp add: sttStage_def ty a t stt)
  have p: "parseStage e it ?w1
             = (Inl perr, ?w1\<lparr>calls := calls ?w1 @ [ExtractCall (stt_transcript r)]\<rparr>)"
    by (simp add: parseStage_def ty getDraftById_def updateDraftTranscript_def d inv fails r)
  have pi: "processItem e it w
              = (Inl perr, ?w1\<lparr>calls := calls ?w1 @ [ExtractCall (stt_transcript r)],
                               queue := [recordFailure it (errorMessageOf perr) it]\<rparr>)"
    using processItem_parse_raises [of it w d e "()" ?w1 perr, OF _ s p] d q
    by (simp add: getDraftById_def)
  have nc: "q_status (recordFailure it (errorMessageOf perr) it) \<noteq> Completed"
    by (simp add: recordFailure_def)
  show ?thesis
    using processQueue_single_raises [OF q st pi _ nc]
    by (simp add: updateDraftTranscript_def d)
qed

lemma three_passes:
  assumes q: "queue w = [it]" and st: "q_status it = Pending" and ty: "q_type it = Both"
    and rc: "q_retryCount it = 0"
    and d: "drafts w (q_draftId it) = Some d"
    and a: "d_audioPath d = Some a" "a \<noteq> []" and t: "d_transcript d = None"
    and inv: "d_invoiceData d = None"
    and stt: "\<And>log x. sttService_transcribe e log x = Inr r" and r: "stt_transcript r \<noteq> []"
    and fails: "\<And>log x. geminiService_parseTranscript e log x = Inl perr"
  shows "queue (snd (processQueue e (snd (processQueue e (snd (processQueue e w))))))
           = [it\<lparr>q_status := Failed, q_lastError := Some (errorMessageOf perr), q_retryCount := 3\<rparr>]
         \<and> (\<exists>d'. drafts (snd (processQueue e (snd (processQueue e (snd (processQueue e w))))))
                     (q_draftId it) = Some d'
                \<and> d_transcript d' = Some (stt_transcript r) \<and> d_invoiceData d' = None)"
proof -
  let ?msg = "errorMessageOf perr"
  let ?it1 = "it\<lparr>q_status := Pending, q_lastError := Some ?msg, q_retryCount := Suc 0\<rparr>"
  let ?it2 = "it\<lparr>q_status := Pending, q_lastError := Some ?msg, q_retryCount := 2\<rparr>"
  let ?it3 = "it\<lparr>q_status := Failed, q_lastError := Some ?msg, q_retryCount := 3\<rparr>"
  let ?d1 = "d\<lparr>d_transcript := Some (stt_transcript r),
                 d_transcriptConfidence := Some (stt_confidence r), d_updatedAt := clock w\<rparr>"
  let ?W1 = "w\<lparr>queue := [?it1], drafts := (drafts w)(q_draftId it \<mapsto> ?d1),
                 calls := calls w @ [TranscribeCall a, ExtractCall (stt_transcript r)]\<rparr>"
  let ?W2 = "?W1\<lparr>queue := [?it2], calls := calls ?W1 @ [ExtractCall (stt_transcript r)]\<rparr>"
  let ?W3 = "?W2\<lparr>queue := [?it3], calls := calls ?W2 @ [ExtractCall (stt_transcript r)]\<rparr>"
  have r1: "recordFailure it ?msg it = ?it1"
    by (simp add: recordFailure_def rc MAX_RETRIES_def)
  have w1: "snd (processQueue e w) = ?W1"
    using first_pass [OF q st ty d a t inv stt r fails] by (simp add: r1)
  have r2: "recordFailure ?it1 ?msg ?it1 = ?it2"
    by (simp add: recordFailure_def MAX_RETRIES_def)
  have w2: "snd (processQueue e ?W1) = ?W2"
    using extraction_pass [of ?W1 ?it1 ?d1 "stt_transcript r" e perr] fails r
    by (simp add: st ty inv r2)
  have r3: "recordFailure ?it2 ?msg ?it2 = ?it3"
    by (simp add: recordFailure_def MAX_RETRIES_def)
  have w3: "snd (processQueue e ?W2) = ?W3"
    using extraction_pass [of ?W2 ?it2 ?d1 "stt_transcript r" e perr] fails r
    by (simp add: st ty inv r3)
  show ?thesis
    by (simp only: w1 w2 w3) (simp add: inv)
qed


lemmas queue_defs = processItem_def processItem_try_def sttStage_def parseStage_def
  getDraftById_def updateDraftTranscript_def updateDraftInvoice_def updateQueueItemStatus_def
  setRowStatus_def MAX_RETRIES_def Let_def

subsection \<open>C2: an item whose draft is missing\<close>

text \<open>
  C2, as stated, fails: for an item with \<^verbatim>\<open>retryCount = 0\<close> whose draft does not exist,
  \<^verbatim>\<open>processItem\<close> throws \<^verbatim>\<open>Draft d1 not found\<close> and leaves the row \<^verbatim>\<open>pending\<close> with
  \<^verbatim>\<open>retryCount = 1\<close>, so the item is picked up again by the next pass.
\<close>

theorem C2_counterexample:
  "getDraftById (q_draftId itemQ1) orphanWorld = None
     \<and> fst (processItem workingEnv itemQ1 orphanWorld) = Inl (ErrorObj ''Draft d1 not found'')
     \<and> map q_status (queue (snd (processItem workingEnv itemQ1 orphanWorld))) = [Pending]
     \<and> map q_retryCount (queue (snd (processItem workingEnv itemQ1 orphanWorld))) = [1]"
  by (simp add: queue_defs itemQ1_def orphanWorld_def)

text \<open>
  C2, amended: when \<^verbatim>\<open>processItem\<close> is run for an item whose draft does not exist, it
  calls no client, throws the error \<^verbatim>\<open>Draft <id> not found\<close>, and handles it like any
  other failure: the row gets \<^verbatim>\<open>retryCount = item.retryCount + 1\<close> and the message as
  \<^verbatim>\<open>lastError\<close>, and its status becomes \<^verbatim>\<open>failed\<close> only when the new count has reached
  3; otherwise it goes back to \<^verbatim>\<open>pending\<close>.
\<close>

theorem C2_missing_draft_counts_as_retry:
  assumes "getDraftById (q_draftId item) w = None"
  shows "processItem e item w
           = (Inl (ErrorObj (''Draft '' @ q_draftId item @ '' not found'')),
              w\<lparr>queue := map (recordFailure item (''Draft '' @ q_draftId item @ '' not found''))
                             (queue w)\<rparr>)"
  using assms by (rule processItem_missing_draft)

theorem C2_witness:
  "getDraftById (q_draftId itemQ1) orphanWorld = None
     \<and> processItem workingEnv itemQ1 orphanWorld
         = (Inl (ErrorObj ''Draft d1 not found''),
            orphanWorld\<lparr>queue := [itemQ1\<lparr>q_status := Pending,
               q_lastError := Some ''Draft d1 not found'', q_retryCount := 1\<rparr>]\<rparr>)
     \<and> processItem workingEnv (itemQ1\<lparr>q_retryCount := 2\<rparr>) orphanWorld
         = (Inl (ErrorObj ''Draft d1 not found''),
            orphanWorld\<lparr>queue := [itemQ1\<lparr>q_status := Failed,
               q_lastError := Some ''Draft d1 not found'', q_retryCount := 3\<rparr>]\<rparr>)"
  using C2_missing_draft_counts_as_retry [of itemQ1 orphanWorld workingEnv]
    C2_missing_draft_counts_as_retry [of "itemQ1\<lparr>q_retryCount := 2\<rparr>" orphanWorld workingEnv]
  by (simp add: getDraftById_def orphanWorld_def itemQ1_def recordFailure_def MAX_RETRIES_def)

subsection \<open>C3: completion and the invoice checkpoint\<close>

text \<open>
  C3, as stated, fails: \<^verbatim>\<open>processItem\<close> (the processing of one item) run on an item of
  type \<^verbatim>\<open>parse\<close> whose draft has no transcript calls no client, returns normally and
  marks the row \<^verbatim>\<open>completed\<close>, while the draft's \<^verbatim>\<open>invoiceData\<close> is still \<^verbatim>\<open>null\<close>. A run of
  \<^verbatim>\<open>processQueue\<close> on the resulting state finds nothing pending and returns at once, so
  the completed row without an invoice is still there after that pass. (A run of
  \<^verbatim>\<open>processQueue\<close> on the initial state counts the item as processed and deletes the
  completed row at its end.)
\<close>

theorem C3_counterexample:
  "processItem workingEnv (itemQ1\<lparr>q_type := Parse\<rparr>) parseOnlyWorld
     = (Inr (), parseOnlyWorld\<lparr>queue := [itemQ1\<lparr>q_type := Parse, q_status := Completed\<rparr>]\<rparr>)
   \<and> map_option d_invoiceData (drafts parseOnlyWorld ''d1'') = Some None
   \<and> processQueue workingEnv (parseOnlyWorld\<lparr>queue := [itemQ1\<lparr>q_type := Parse, q_status := Completed\<rparr>]\<rparr>)
     = (\<lparr>r_processed = 0, r_failed = 0, r_total = 0, r_errors = []\<rparr>,
        parseOnlyWorld\<lparr>queue := [itemQ1\<lparr>q_type := Parse, q_status := Completed\<rparr>]\<rparr>)
   \<and> processQueue workingEnv parseOnlyWorld
     = (\<lparr>r_processed = 1, r_failed = 0, r_total = 1, r_errors = []\<rparr>, parseOnlyWorld\<lparr>queue := []\<rparr>)"
  by (simp add: queue_defs itemQ1_def parseOnlyWorld_def draftD1_def processQueue_def
        getPendingQueueItems_def isPendingRow_def deleteCompletedQueueItems_def isCompletedRow_def)

text \<open>
  C3, amended: when \<^verbatim>\<open>processItem\<close> returns normally for an item of type \<^verbatim>\<open>parse\<close> or
  \<^verbatim>\<open>both\<close>, the rows with the item's id are \<^verbatim>\<open>completed\<close>, the draft exists, and if the
  draft has a non-empty transcript then its \<^verbatim>\<open>invoiceData\<close> is non-null.
\<close>

theorem C3_completed_has_invoice_if_transcript:
  assumes "processItem e item w = (Inr u, w')" and "q_type item \<noteq> Stt"
  shows "queue w' = map (setRowStatus (q_id item) Completed None (q_retryCount item)) (queue w)
           \<and> (\<exists>d'. drafts w' (q_draftId item) = Some d'
                \<and> (truthy (d_transcript d') \<longrightarrow> d_invoiceData d' \<noteq> None))"
proof (cases "getDraftById (q_draftId item) w")
  case None
  then show ?thesis using assms(1) by (simp add: processItem_missing_draft)
next
  case (Some draft)
  obtain r1 w1 where s: "sttStage e item draft w = (r1, w1)" by (cases "sttStage e item draft w")
  obtain r2 w2 where p: "parseStage e item w1 = (r2, w2)" by (cases "parseStage e item w1")
  show ?thesis
  proof (cases r1)
    case (Inl err)
    then show ?thesis using assms(1) processItem_stt_raises [OF Some, of e err w1] s by simp
  next
    case r1: (Inr u1)
    show ?thesis
    proof (cases r2)
      case (Inl err)
      then show ?thesis
        using assms(1) processItem_parse_raises [OF Some, of e u1 w1 err w2] s p r1 by simp
    next
      case r2: (Inr u2)
      have eq: "w' = w2\<lparr>queue := map (setRowStatus (q_id item) Completed None (q_retryCount item)) (queue w)\<rparr>"
        using assms(1) processItem_completes [OF Some, of e u1 w1 u2 w2] s p r1 r2 by simp
      obtain d1 where d1: "drafts w1 (q_draftId item) = Some d1"
        using sttStage_draft [of w "q_draftId item" draft e item draft] Some s
        by (auto simp add: getDraftById_def)
      obtain d' where "drafts w2 (q_draftId item) = Some d'"
        and "truthy (d_transcript d') \<longrightarrow> d_invoiceData d' \<noteq> None"
        using parseStage_invoice [of e item w1 u2 w2 d1] p r2 assms(2) d1 by auto
      then show ?thesis by (simp add: eq)
    qed
  qed
qed


theorem C3_witness:
  "fst (processItem workingEnv itemQ1 scenarioWorld) = Inr () \<and> q_type itemQ1 \<noteq> Stt
     \<and> map q_status (queue (snd (processItem workingEnv itemQ1 scenarioWorld))) = [Completed]
     \<and> (\<exists>d'. drafts (snd (processItem workingEnv itemQ1 scenarioWorld)) (q_draftId itemQ1) = Some d'
           \<and> truthy (d_transcript d') \<and> d_invoiceData d' \<noteq> None)"
proof -
  have run: "processItem workingEnv itemQ1 scenarioWorld
               = (Inr (), snd (processItem workingEnv itemQ1 scenarioWorld))"
    by (simp add: queue_defs itemQ1_def scenarioWorld_def draftD1_def workingEnv_def sttOk_def)
  have ty: "q_type itemQ1 \<noteq> Stt" by (simp add: itemQ1_def)
  have tr: "\<And>d'. drafts (snd (processItem workingEnv itemQ1 scenarioWorld)) (q_draftId itemQ1) = Some d'
              \<Longrightarrow> truthy (d_transcript d')"
    by (auto simp add: queue_defs itemQ1_def scenarioWorld_def draftD1_def workingEnv_def sttOk_def)
  have st: "map q_status (map (setRowStatus (q_id itemQ1) Completed None (q_retryCount itemQ1))
              (queue scenarioWorld)) = [Completed]"
    by (simp add: setRowStatus_def scenarioWorld_def itemQ1_def)
  have f: "fst (processItem workingEnv itemQ1 scenarioWorld) = Inr ()"
    by (subst run) simp
  show ?thesis
    using C3_completed_has_invoice_if_transcript [OF run ty] f ty tr st by auto
qed

subsection \<open>C5: retryFailedItems\<close>

text \<open>
  C5 describes what \<^verbatim>\<open>retryFailedItems\<close> is written to do (its filter selects the items
  with \<^verbatim>\<open>status === 'failed'\<close>), but the code does not do it: the items it filters come
  from \<^verbatim>\<open>getPendingQueueItems\<close>, which returns \<^verbatim>\<open>pending\<close> rows only, so a \<^verbatim>\<open>failed\<close> row is
  never selected and keeps its status. Evaluated on a queue whose only row is
  \<^verbatim>\<open>failed\<close>, \<^verbatim>\<open>retryFailedItems\<close> changes nothing.
\<close>

theorem C5_failed_item_stays_failed:
  "q_status failedRow = Failed \<and> queue failedWorld = [failedRow]
     \<and> retryFailedItems failedWorld = failedWorld"
  by (simp add: retryFailedItems_def getPendingQueueItems_def isPendingRow_def failedWorld_def
        failedRow_def)

subsection \<open>C6: bookkeeping of a failed stage\<close>

text \<open>
  C6: when the transcription stage or the extraction stage of \<^verbatim>\<open>processItem\<close> throws
  \<open>err\<close>, \<^verbatim>\<open>processItem\<close> throws \<open>err\<close> again, and the rows with the item's id get
  \<^verbatim>\<open>retryCount = item.retryCount + 1\<close>, the error message as \<^verbatim>\<open>lastError\<close> and the status
  \<^verbatim>\<open>failed\<close> if the new count has reached 3, \<^verbatim>\<open>pending\<close> otherwise (this is
  \<open>recordFailure\<close>); what the stages wrote before the failure stays written. In
  particular: a queue holding one pending item of type \<^verbatim>\<open>both\<close> with \<^verbatim>\<open>retryCount = 0\<close>,
  whose draft has audio and neither transcript nor invoice, a transcription client
  that returns a non-empty transcript and an extraction client that always throws;
  after three runs of \<^verbatim>\<open>processQueue\<close> the item is \<^verbatim>\<open>failed\<close> with \<^verbatim>\<open>retryCount = 3\<close>, the
  draft's transcript is set and its \<^verbatim>\<open>invoiceData\<close> is still \<^verbatim>\<open>null\<close>.
\<close>

theorem C6_stage_failure_bookkeeping:
  "(getDraftById (q_draftId item) w = Some draft \<longrightarrow>
      sttStage e item draft w = (Inl err, w1) \<longrightarrow>
      processItem e item w
        = (Inl err, w1\<lparr>queue := map (recordFailure item (errorMessageOf err)) (queue w)\<rparr>))
   \<and> (getDraftById (q_draftId item) w = Some draft \<longrightarrow>
      sttStage e item draft w = (Inr u, w1) \<longrightarrow>
      parseStage e item w1 = (Inl err, w2) \<longrightarrow>
      processItem e item w
        = (Inl err, w2\<lparr>queue := map (recordFailure item (errorMessageOf err)) (queue w)\<rparr>))
   \<and> (queue ws = [it] \<longrightarrow> q_status it = Pending \<longrightarrow> q_type it = Both \<longrightarrow>
      q_retryCount it = 0 \<longrightarrow> drafts ws (q_draftId it) = Some d \<longrightarrow>
      d_audioPath d = Some a \<longrightarrow> a \<noteq> [] \<longrightarrow> d_transcript d = None \<longrightarrow>
      d_invoiceData d = None \<longrightarrow>
      (\<forall>log x. sttService_transcribe es log x = Inr r) \<longrightarrow> stt_transcript r \<noteq> [] \<longrightarrow>
      (\<forall>log x. geminiService_parseTranscript es log x = Inl perr) \<longrightarrow>
      queue (snd (processQueue es (snd (processQueue es (snd (processQueue es ws))))))
        = [it\<lparr>q_status := Failed, q_lastError := Some (errorMessageOf perr), q_retryCount := 3\<rparr>]
      \<and> (\<exists>d'. drafts (snd (processQueue es (snd (processQueue es (snd (processQueue es ws))))))
                  (q_draftId it) = Some d'
             \<and> d_transcript d' = Some (stt_transcript r) \<and> d_invoiceData d' = None))"
  using processItem_stt_raises [of item w draft e err w1]
    processItem_parse_raises [of item w draft e u w1 err w2]
    three_passes [of ws it d a es r perr]
  by blast

theorem C6_witness:
  "processItem transcriptionDownEnv itemQ1 scenarioWorld
     = (Inl (ErrorObj ''Max retries exceeded''),
        scenarioWorld\<lparr>queue := [itemQ1\<lparr>q_status := Pending,
            q_lastError := Some ''Max retries exceeded'', q_retryCount := 1\<rparr>],
          calls := [TranscribeCall ''a.m4a'']\<rparr>)
   \<and> processItem extractionDownEnv (itemQ1\<lparr>q_retryCount := 2\<rparr>) checkpointWorld
     = (Inl (ErrorObj ''Network request failed''),
        checkpointWorld\<lparr>queue := [itemQ1\<lparr>q_status := Failed,
            q_lastError := Some ''Network request failed'', q_retryCount := 3\<rparr>],
          calls := [ExtractCall ''2 hours at 500'']\<rparr>)
   \<and> queue (snd (processQueue extractionDownEnv (snd (processQueue extractionDownEnv
        (snd (processQueue extractionDownEnv scenarioWorld))))))
     = [itemQ1\<lparr>q_status := Failed, q_lastError := Some ''Network request failed'',
          q_retryCount := 3\<rparr>]
   \<and> (\<exists>d'. drafts (snd (processQueue extractionDownEnv (snd (processQueue extractionDownEnv
              (snd (processQueue extractionDownEnv scenarioWorld)))))) ''d1'' = Some d'
         \<and> d_transcript d' = Some ''2 hours at 500'' \<and> d_invoiceData d' = None)"
proof -
  have a: "sttStage transcriptionDownEnv itemQ1 draftD1 scenarioWorld
             = (Inl (ErrorObj ''Max retries exceeded''),
                scenarioWorld\<lparr>calls := [TranscribeCall ''a.m4a'']\<rparr>)"
    by (simp add: sttStage_def itemQ1_def draftD1_def scenarioWorld_def transcriptionDownEnv_def)
  have b1: "sttStage extractionDownEnv (itemQ1\<lparr>q_retryCount := 2\<rparr>)
              (draftD1\<lparr>d_transcript := Some ''2 hours at 500'', d_transcriptConfidence := Some (9 / 10)\<rparr>)
              checkpointWorld = (Inr (), checkpointWorld)"
    by (simp add: sttStage_def itemQ1_def draftD1_def)
  have b2: "parseStage extractionDownEnv (itemQ1\<lparr>q_retryCount := 2\<rparr>) checkpointWorld
              = (Inl (ErrorObj ''Network request failed''),
                 checkpointWorld\<lparr>calls := [ExtractCall ''2 hours at 500'']\<rparr>)"
    by (simp add: parseStage_def getDraftById_def itemQ1_def draftD1_def checkpointWorld_def
          extractionDownEnv_def)
  show ?thesis
    using C6_stage_failure_bookkeeping [where item = itemQ1 and w = scenarioWorld
        and draft = draftD1 and e = transcriptionDownEnv and err = "ErrorObj ''Max retries exceeded''"
        and ?w1.0 = "scenarioWorld\<lparr>calls := [TranscribeCall ''a.m4a'']\<rparr>"
        and ws = scenarioWorld and it = itemQ1 and d = draftD1 and a = "''a.m4a''"
        and es = extractionDownEnv and r = sttOk and perr = "ErrorObj ''Network request failed''"]
      C6_stage_failure_bookkeeping [where item = "itemQ1\<lparr>q_retryCount := 2\<rparr>" and w = checkpointWorld
        and draft = "draftD1\<lparr>d_transcript := Some ''2 hours at 500'',
                              d_transcriptConfidence := Some (9 / 10)\<rparr>"
        and e = extractionDownEnv and u = "()" and ?w1.0 = checkpointWorld
        and err = "ErrorObj ''Network request failed''"
        and ?w2.0 = "checkpointWorld\<lparr>calls := [ExtractCall ''2 hours at 500'']\<rparr>"
        and ws = scenarioWorld and it = itemQ1 and d = draftD1 and a = "''a.m4a''"
        and es = extractionDownEnv and r = sttOk and perr = "ErrorObj ''Network request failed''"]
      a b1 b2
    by (simp add: getDraftById_def scenarioWorld_def checkpointWorld_def itemQ1_def draftD1_def
          recordFailure_def MAX_RETRIES_def extractionDownEnv_def sttOk_def)
qed

subsection \<open>C7: resuming at the extraction stage\<close>

text \<open>
  C7, as stated, fails: a draft whose transcript is the empty string has a non-null
  transcript and a null invoice, yet \<^verbatim>\<open>!draft.transcript\<close> holds for it, so
  \<^verbatim>\<open>processItem\<close> calls the transcription client (the draft has audio).
\<close>

theorem C7_counterexample:
  "q_type itemQ1 = Both
     \<and> map_option d_transcript (drafts emptyTranscriptWorld (q_draftId itemQ1)) = Some (Some [])
     \<and> map_option d_invoiceData (drafts emptyTranscriptWorld (q_draftId itemQ1)) = Some None
     \<and> calls (snd (processItem workingEnv itemQ1 emptyTranscriptWorld))
         = [TranscribeCall ''a.m4a'', ExtractCall ''2 hours at 500'']"
  by (simp add: queue_defs itemQ1_def emptyTranscriptWorld_def draftD1_def workingEnv_def sttOk_def)

text \<open>
  C7, amended: processing an item of type \<^verbatim>\<open>both\<close> whose draft already has a non-empty
  transcript and a null \<^verbatim>\<open>invoiceData\<close> makes exactly one call to the extraction client
  (with the draft's transcript) and no call to the transcription client; when that
  call returns, \<^verbatim>\<open>invoiceData\<close> and \<^verbatim>\<open>parseConfidence\<close> are written together and the item is
  completed; when it throws, nothing is written to the draft and the failure is recorded.
\<close>

theorem C7_checkpoint_skips_transcription:
  assumes "q_type item = Both" and "getDraftById (q_draftId item) w = Some d"
    and "d_transcript d = Some t" and "t \<noteq> []" and "d_invoiceData d = None"
  shows "calls (snd (processItem e item w)) = calls w @ [ExtractCall t]
     \<and> (case geminiService_parseTranscript e (calls w) t of
          Inr parsedInvoice \<Rightarrow>
            processItem e item w
              = (Inr (), w\<lparr>queue := map (setRowStatus (q_id item) Completed None (q_retryCount item)) (queue w),
                   drafts := (drafts w)(q_draftId item \<mapsto>
                     d\<lparr>d_invoiceData := Some (JSON_stringify e parsedInvoice),
                       d_parseConfidence := Some (getAverageConfidence parsedInvoice),
                       d_syncStatus := SSynced, d_updatedAt := clock w\<rparr>),
                   calls := calls w @ [ExtractCall t]\<rparr>)
        | Inl err \<Rightarrow>
            processItem e item w
              = (Inl err, w\<lparr>queue := map (recordFailure item (errorMessageOf err)) (queue w),
                   calls := calls w @ [ExtractCall t]\<rparr>))"
proof -
  have s: "sttStage e item d w = (Inr (), w)"
    using assms by (simp add: sttStage_def split: option.splits)
  show ?thesis
  proof (cases "geminiService_parseTranscript e (calls w) t")
    case (Inl err)
    have p: "parseStage e item w = (Inl err, w\<lparr>calls := calls w @ [ExtractCall t]\<rparr>)"
      using assms Inl by (simp add: parseStage_def)
    show ?thesis
      using processItem_parse_raises [OF assms(2) s p] Inl by simp
  next
    case (Inr parsedInvoice)
    have p: "parseStage e item w
               = (Inr (), updateDraftInvoice (q_draftId item) (JSON_stringify e parsedInvoice)
                    (getAverageConfidence parsedInvoice) (w\<lparr>calls := calls w @ [ExtractCall t]\<rparr>))"
      using assms Inr by (simp add: parseStage_def)
    show ?thesis
      using processItem_completes [OF assms(2) s p] Inr assms(2)
      by (simp add: updateDraftInvoice_def getDraftById_def)
  qed
qed

theorem C7_witness:
  "q_type itemQ1 = Both
     \<and> map_option d_transcript (drafts checkpointWorld (q_draftId itemQ1)) = Some (Some ''2 hours at 500'')
     \<and> map_option d_invoiceData (drafts checkpointWorld (q_draftId itemQ1)) = Some None
     \<and> calls (snd (processItem workingEnv itemQ1 checkpointWorld)) = [ExtractCall ''2 hours at 500'']
     \<and> fst (processItem workingEnv itemQ1 checkpointWorld) = Inr ()
     \<and> map_option d_invoiceData (drafts (snd (processItem workingEnv itemQ1 checkpointWorld)) ''d1'')
          = Some (Some ''{total:1000}'')
     \<and> map_option d_parseConfidence (drafts (snd (processItem workingEnv itemQ1 checkpointWorld)) ''d1'')
          = Some (Some (9 / 10))"
  using C7_checkpoint_skips_transcription [of itemQ1 checkpointWorld
      "draftD1\<lparr>d_transcript := Some ''2 hours at 500'', d_transcriptConfidence := Some (9 / 10)\<rparr>"
      "''2 hours at 500''" workingEnv]
  by (simp add: itemQ1_def checkpointWorld_def draftD1_def getDraftById_def workingEnv_def
        invoice1000_def getAverageConfidence_def)

subsection \<open>Auxiliary facts about the sync service\<close>

lemmas sync_defs = syncNow_def syncNow_call_def syncNow_afterNetwork_def syncNow_afterQueue_def
  updateState_def notifyListeners_def getSyncStatus_def tooSoon_def MIN_SYNC_INTERVAL_MS_def Let_def

lemma syncNow_call_while_syncing:
  "syncState s = SyncSyncing \<Longrightarrow> tasks s tid = NotStarted \<Longrightarrow>
   syncNow_call tid now s = s\<lparr>tasks := (tasks s)(tid := Returned
       \<lparr>success = False, processResult = None, error = Some ''Sync already in progress''\<rparr>)\<rparr>"
  by (simp add: syncNow_call_def)







subsection \<open>C4: at most one sync pass at a time\<close>

text \<open>
  C4 states the guard that \<^verbatim>\<open>syncNow\<close> is written to be (its first statement is the
  check of the \<^verbatim>\<open>syncing\<close> state), but the code does not establish it: the state is
  set to \<^verbatim>\<open>syncing\<close> only after \<^verbatim>\<open>await Network.getNetworkStateAsync()\<close>, a suspension point
  between the check and the write. Two calls made while the service is idle both pass
  the check, both wait for the network probe, and then both set \<^verbatim>\<open>syncing\<close> and invoke
  \<^verbatim>\<open>processQueue\<close>: after the four steps below both tasks are waiting for their own
  queue pass and \<^verbatim>\<open>processQueue\<close> has been invoked twice. (The first part of C4 holds:
  by \<open>syncNow_call_while_syncing\<close> a call made while the state is \<^verbatim>\<open>syncing\<close> returns
  \<^verbatim>\<open>success: false\<close> at once and changes nothing else.)
\<close>

theorem C4_two_interleaved_calls_both_process:
  "tasks (run [CallSyncNow 0 1000, CallSyncNow 1 1000] freshSys) 0 = AwaitingNetwork
   \<and> tasks (run [CallSyncNow 0 1000, CallSyncNow 1 1000] freshSys) 1 = AwaitingNetwork
   \<and> tasks (run [CallSyncNow 0 1000, CallSyncNow 1 1000,
                   NetworkSettled 0 (Inr online), NetworkSettled 1 (Inr online)] freshSys) 0 = AwaitingQueue
   \<and> tasks (run [CallSyncNow 0 1000, CallSyncNow 1 1000,
                   NetworkSettled 0 (Inr online), NetworkSettled 1 (Inr online)] freshSys) 1 = AwaitingQueue
   \<and> processQueueCalls (run [CallSyncNow 0 1000, CallSyncNow 1 1000,
                   NetworkSettled 0 (Inr online), NetworkSettled 1 (Inr online)] freshSys) = 2"
  by (simp add: sync_defs freshSys_def online_def isOffline_def)

subsection \<open>C8: the minimum interval between syncs\<close>



subsection \<open>Auxiliary facts about the Gemini service\<close>



lemma Math_round_two_decimals:
  "\<bar>Math_round (x * 100) / 100 - x\<bar> \<le> 1 / 200"
  "\<exists>k::int. Math_round (x * 100) / 100 = of_int k / 100"
proof -
  define y :: rat where "y = of_int \<lfloor>x * 100 + 1 / 2\<rfloor>"
  have lo: "y \<le> x * 100 + 1 / 2" unfolding y_def by (rule of_int_floor_le)
  have hi: "x * 100 + 1 / 2 < y + 1" unfolding y_def by linarith
  have "y / 100 - x \<le> 1 / 200" and "- (y / 100 - x) \<le> 1 / 200"
    using lo hi by linarith+
  then have "\<bar>y / 100 - x\<bar> \<le> 1 / 200" by (rule abs_leI)
  then show "\<bar>Math_round (x * 100) / 100 - x\<bar> \<le> 1 / 200"
    by (simp add: Math_round_def y_def)
  show "\<exists>k::int. Math_round (x * 100) / 100 = of_int k / 100"
    by (auto simp add: Math_round_def)
qed

lemma retryLoop_exhausted:
  "retryLoop e transcript request attempt lastErr hist = (LoopExhausted kept, hist')
   \<Longrightarrow> attempt \<le> CONFIG_MAX_RETRIES
   \<Longrightarrow> filter isFetch hist'
         = filter isFetch hist @ replicate (CONFIG_MAX_RETRIES - attempt) (Fetch request)
       \<and> (attempt < CONFIG_MAX_RETRIES \<longrightarrow> kept \<noteq> None)
       \<and> (attempt = CONFIG_MAX_RETRIES \<longrightarrow> kept = lastErr \<and> hist' = hist)"
proof (induction e transcript request attempt lastErr hist rule: retryLoop.induct)
  case (1 e transcript request attempt lastErr hist)
  show ?case
  proof (cases "attempt < CONFIG_MAX_RETRIES")
    case False
    have "retryLoop e transcript request attempt lastErr hist = (LoopExhausted lastErr, hist)"
      using False by (subst retryLoop.simps) simp
    then show ?thesis using "1.prems" False by simp
  next
    case True
    show ?thesis
    proof (cases "tryAttempt e transcript request attempt hist")
      case (Inr inv)
      have "retryLoop e transcript request attempt lastErr hist
              = (LoopReturned inv, hist @ [Fetch request])"
        using True Inr by (subst retryLoop.simps) simp
      then show ?thesis using "1.prems" by simp
    next
      case (Inl err)
      show ?thesis
      proof (cases "isFatal err")
        case fatal: True
        have "retryLoop e transcript request attempt lastErr hist
                = (LoopThrew err, hist @ [Fetch request])"
          using True Inl fatal by (subst retryLoop.simps) simp
        then show ?thesis using "1.prems" by simp
      next
        case nonfatal: False
        let ?h = "if attempt < CONFIG_MAX_RETRIES - 1
                  then hist @ [Fetch request, Sleep (getBackoffDelay attempt)]
                  else hist @ [Fetch request]"
        have "retryLoop e transcript request attempt lastErr hist
                = retryLoop e transcript request (attempt + 1) (Some (keptError err)) ?h"
          using True Inl nonfatal by (subst retryLoop.simps) simp
        then have rec: "retryLoop e transcript request (attempt + 1) (Some (keptError err)) ?h
                     = (LoopExhausted kept, hist')"
          using "1.prems" by simp
        have ih: "filter isFetch hist'
                    = filter isFetch ?h @ replicate (CONFIG_MAX_RETRIES - (attempt + 1)) (Fetch request)
                  \<and> (attempt + 1 < CONFIG_MAX_RETRIES \<longrightarrow> kept \<noteq> None)
                  \<and> (attempt + 1 = CONFIG_MAX_RETRIES \<longrightarrow> kept = Some (keptError err) \<and> hist' = ?h)"
          using "1.IH" [OF True Inl nonfatal rec] True by simp
        have n: "CONFIG_MAX_RETRIES - attempt = Suc (CONFIG_MAX_RETRIES - (attempt + 1))"
          using True by simp
        have fh: "filter isFetch ?h = filter isFetch hist @ [Fetch request]" by simp
        have "filter isFetch hist'
                = filter isFetch hist @ replicate (CONFIG_MAX_RETRIES - attempt) (Fetch request)"
          using ih by (simp only: n fh) (simp add: replicate_app_Cons_same)
        moreover have "kept \<noteq> None"
          using ih True by (cases "attempt + 1 < CONFIG_MAX_RETRIES") auto
        ultimately show ?thesis using True by simp
      qed
    qed
  qed
qed


subsection \<open>C9: the fallback of parseTranscript\<close>

text \<open>
  C9, as stated, fails: when the network is down, each of the three attempts of the
  retry loop fails, the one fallback request fails as well, and \<^verbatim>\<open>parseTranscript\<close>
  throws the last error of the retry loop; it does not return an empty invoice.
\<close>

theorem C9_counterexample:
  "\<not> isBlank ''2 hours at 500''
   \<and> retryLoop networkDownEnv ''2 hours at 500'' (mainRequest ''2 hours at 500'' None) 0 None []
       = (LoopExhausted (Some (TypeError ''Network request failed'')),
          [Fetch (mainRequest ''2 hours at 500'' None), Sleep 1000,
           Fetch (mainRequest ''2 hours at 500'' None), Sleep 2000,
           Fetch (mainRequest ''2 hours at 500'' None)])
   \<and> parseTranscript networkDownEnv ''2 hours at 500'' None
       = (Inl (TypeError ''Network request failed''),
          [Fetch (mainRequest ''2 hours at 500'' None), Sleep 1000,
           Fetch (mainRequest ''2 hours at 500'' None), Sleep 2000,
           Fetch (mainRequest ''2 hours at 500'' None),
           Fetch (fallbackRequest ''2 hours at 500'' None)])"
  by (simp add: parseTranscript_def isBlank_def isWhitespace_def networkDownEnv_def tryAttempt_def
        fallbackParse_def CONFIG_MAX_RETRIES_def getBackoffDelay_def retryLoop.simps
        CONFIG_RETRY_INITIAL_DELAY_MS_def CONFIG_RETRY_MAX_DELAY_MS_def Let_def)

text \<open>
  C9, amended: for every transcript that is not blank, when the retry loop of
  \<^verbatim>\<open>parseTranscript\<close> is exhausted it has sent the main request three times and then sends
  exactly one fallback request, built from the fallback prompt with a smaller token
  budget (512 instead of 1024). If that request is answered with an OK status and a
  text that cannot be turned into an invoice, \<^verbatim>\<open>parseTranscript\<close> returns the empty invoice
  (no items, the explanatory note, currency INR, tax 0); if the text can be turned into
  an invoice, it returns that invoice; if the fallback request itself fails (\<^verbatim>\<open>fetch\<close>
  throws, the status is not OK, the body cannot be read or carries no text),
  \<^verbatim>\<open>parseTranscript\<close> throws the last error of the retry loop.
\<close>

theorem C9_fallback_after_exhausted_retries:
  assumes "\<not> isBlank transcript"
    and "retryLoop e transcript (mainRequest transcript options) 0 None [] = (LoopExhausted lastErr, hist)"
  shows "filter isFetch (snd (parseTranscript e transcript options))
           = replicate 3 (Fetch (mainRequest transcript options)) @ [Fetch (fallbackRequest transcript None)]
       \<and> req_maxOutputTokens (fallbackRequest transcript None)
           < req_maxOutputTokens (mainRequest transcript options)
       \<and> p_items (emptyInvoice e transcript ''INR'' 0) = []
       \<and> p_notes (emptyInvoice e transcript ''INR'' 0)
           = ''Failed to parse transcript. Please add items manually.''
       \<and> (\<exists>kept. lastErr = Some kept \<and>
            fst (parseTranscript e transcript options)
              = (case fetch e hist (fallbackRequest transcript None) of
                   Inl err \<Rightarrow> Inl kept
                 | Inr response \<Rightarrow>
                     if \<not> resp_ok response then Inl kept
                     else (case resp_json response of
                             Inl err \<Rightarrow> Inl kept
                           | Inr data \<Rightarrow>
                               if \<not> truthy (g_text data) then Inl kept
                               else (case decode e (case g_text data of None \<Rightarrow> [] | Some text \<Rightarrow> text) of
                                       WellFormed rawInvoice \<Rightarrow>
                                         Inr (transformToInvoice (dateNow e) (isoNow e) rawInvoice transcript)
                                     | JsonParseThrows \<Rightarrow> Inr (emptyInvoice e transcript ''INR'' 0)
                                     | TransformThrows err \<Rightarrow> Inr (emptyInvoice e transcript ''INR'' 0)))))"
proof -
  from retryLoop_exhausted [OF assms(2)]
  have fetches: "filter isFetch hist = replicate 3 (Fetch (mainRequest transcript options))"
    and kept: "lastErr \<noteq> None"
    by (simp_all add: CONFIG_MAX_RETRIES_def)
  then obtain kept where k: "lastErr = Some kept" by auto
  have log: "snd (fallbackParse e transcript None hist) = hist @ [Fetch (fallbackRequest transcript None)]"
    by (simp add: fallbackParse_def Let_def split: sum.splits decoded.splits)
  have pt: "parseTranscript e transcript options
              = (case fallbackParse e transcript None hist of
                   (Inr parsedInvoice, hist1) \<Rightarrow> (Inr parsedInvoice, hist1)
                 | (Inl err, hist1) \<Rightarrow> (Inl kept, hist1))"
    using assms(1) by (simp add: parseTranscript_def assms(2) k split: prod.splits sum.splits)
  obtain r h1 where fb: "fallbackParse e transcript None hist = (r, h1)"
    by (cases "fallbackParse e transcript None hist")
  have s: "snd (parseTranscript e transcript options) = hist @ [Fetch (fallbackRequest transcript None)]"
    using log by (cases r) (simp_all add: pt fb)
  have f: "fst (parseTranscript e transcript options)
             = (case fst (fallbackParse e transcript None hist) of
                  Inr parsedInvoice \<Rightarrow> Inr parsedInvoice | Inl err \<Rightarrow> Inl kept)"
    by (cases r) (simp_all add: pt fb)
  have "fst (parseTranscript e transcript options)
              = (case fetch e hist (fallbackRequest transcript None) of
                   Inl err \<Rightarrow> Inl kept
                 | Inr response \<Rightarrow>
                     if \<not> resp_ok response then Inl kept
                     else (case resp_json response of
                             Inl err \<Rightarrow> Inl kept
                           | Inr data \<Rightarrow>
                               if \<not> truthy (g_text data) then Inl kept
                               else (case decode e (case g_text data of None \<Rightarrow> [] | Some text \<Rightarrow> text) of
                                       WellFormed rawInvoice \<Rightarrow>
                                         Inr (transformToInvoice (dateNow e) (isoNow e) rawInvoice transcript)
                                     | JsonParseThrows \<Rightarrow> Inr (emptyInvoice e transcript ''INR'' 0)
                                     | TransformThrows err \<Rightarrow> Inr (emptyInvoice e transcript ''INR'' 0))))"
    unfolding f
    by (simp add: fallbackParse_def Let_def orStr_def split: sum.splits decoded.splits)
  then show ?thesis
    using k s fetches
    by (simp add: fallbackRequest_def mainRequest_def emptyInvoice_def)
qed

theorem C9_witness:
  "\<not> isBlank ''2 hours at 500''
   \<and> fst (retryLoop garbledFallbackEnv ''2 hours at 500'' (mainRequest ''2 hours at 500'' None) 0 None [])
       = LoopExhausted (Some (GeminiError API_ERROR ''overloaded'' True))
   \<and> filter isFetch (snd (parseTranscript garbledFallbackEnv ''2 hours at 500'' None))
       = [Fetch (mainRequest ''2 hours at 500'' None), Fetch (mainRequest ''2 hours at 500'' None),
          Fetch (mainRequest ''2 hours at 500'' None), Fetch (fallbackRequest ''2 hours at 500'' None)]
   \<and> fst (parseTranscript garbledFallbackEnv ''2 hours at 500'' None)
       = Inr (emptyInvoice garbledFallbackEnv ''2 hours at 500'' ''INR'' 0)"
proof -
  let ?t = "''2 hours at 500''"
  let ?h = "[Fetch (mainRequest ?t None), Sleep 1000, Fetch (mainRequest ?t None), Sleep 2000,
             Fetch (mainRequest ?t None)]"
  have nb: "\<not> isBlank ?t" by (simp add: isBlank_def isWhitespace_def)
  have loop: "retryLoop garbledFallbackEnv ?t (mainRequest ?t None) 0 None []
                = (LoopExhausted (Some (GeminiError API_ERROR ''overloaded'' True)), ?h)"
    by (simp add: garbledFallbackEnv_def overloadedResponse_def okResponse_def tryAttempt_def
          mainRequest_def CONFIG_MAX_RETRIES_def getBackoffDelay_def orStr_def retryLoop.simps
          CONFIG_RETRY_INITIAL_DELAY_MS_def CONFIG_RETRY_MAX_DELAY_MS_def Let_def)
  have fb: "fetch garbledFallbackEnv ?h (fallbackRequest ?t None)
              = Inr (okResponse ''I cannot help with that'')"
    by (simp add: garbledFallbackEnv_def fallbackRequest_def)
  have dc: "decode garbledFallbackEnv ''I cannot help with that'' = JsonParseThrows"
    by (simp add: garbledFallbackEnv_def)
  show ?thesis
    using C9_fallback_after_exhausted_retries [OF nb loop] nb loop fb dc
    by (simp add: okResponse_def numeral_3_eq_3)
qed


subsection \<open>C10: the totals of a transformed invoice\<close>


end
